theory Spec2Isabelle
  imports Complex_Main
begin

section \<open>Tensors\<close>

text \<open>
  The program computes on PyTorch tensors. A tensor is modelled by its shape and its
  elements in row-major (contiguous) order; the elements are real numbers, so the
  arithmetic of the model is exact. The program computes in float32: where rounding,
  overflow or NaN decide a property (a sigmoid that rounds to 0 or 1, a sum that
  overflows), the model does not show it, and no theorem below is about such a
  property. Every error the program can raise is a value of
  \<open>error\<close>, and a computation that may raise returns \<open>error + 'a\<close>.
\<close>

datatype error =
  AttributeError | TypeError | ValueError | RuntimeError | ZeroDivisionError | IndexError

record tensor =
  shape :: "nat list"
  data :: "real list"

definition numel :: "nat list \<Rightarrow> nat" where
  "numel s = prod_list s"

definition wf_tensor :: "tensor \<Rightarrow> bool" where
  "wf_tensor x \<longleftrightarrow> length (data x) = numel (shape x)"

definition ebind :: "error + 'a \<Rightarrow> ('a \<Rightarrow> error + 'b) \<Rightarrow> error + 'b" where
  "ebind m f = (case m of Inl e \<Rightarrow> Inl e | Inr a \<Rightarrow> f a)"

text \<open>\<open>B, K, T, N = x.shape\<close>: unpacking raises ValueError unless the rank is 4.\<close>

fun unpack4 :: "nat list \<Rightarrow> error + (nat \<times> nat \<times> nat \<times> nat)" where
  "unpack4 [b, k, t, n] = Inr (b, k, t, n)"
| "unpack4 _ = Inl ValueError"

text \<open>\<open>x.view(s)\<close> keeps the elements and needs the element counts to agree.\<close>

definition view :: "tensor \<Rightarrow> nat list \<Rightarrow> error + tensor" where
  "view x s = (if numel s = numel (shape x) then Inr \<lparr>shape = s, data = data x\<rparr>
               else Inl RuntimeError)"

text \<open>
  \<open>x.permute(0, 2, 1)\<close> (also \<open>x.transpose(-1, -2)\<close> on rank 3) of a tensor \<open>[r, a, b]\<close>:
  the element at \<open>(i, j, l)\<close> of the result \<open>[r, b, a]\<close> is the element at \<open>(i, l, j)\<close>
  of the argument, whose row-major offset is \<open>(i * a + l) * b + j\<close>.
\<close>

definition permute_021 :: "tensor \<Rightarrow> error + tensor" where
  "permute_021 x =
     (case shape x of
        [r, a, b] \<Rightarrow>
          Inr \<lparr>shape = [r, b, a],
               data = map (\<lambda>p. data x ! ((p div (a * b) * a + p mod a) * b + p div a mod b))
                          [0..<r * b * a]\<rparr>
      | _ \<Rightarrow> Inl RuntimeError)"

text \<open>
  \<open>x.permute(0, 2, 1, 3)\<close> of a tensor \<open>[b, k, t, n]\<close>: the element at \<open>(i, j, l, c)\<close>
  of the result \<open>[b, t, k, n]\<close> is the element at \<open>(i, l, j, c)\<close> of the argument.
\<close>

definition permute_0213 :: "tensor \<Rightarrow> error + tensor" where
  "permute_0213 x =
     (case shape x of
        [b, k, t, n] \<Rightarrow>
          Inr \<lparr>shape = [b, t, k, n],
               data = map (\<lambda>p. data x ! (((p div (n * k * t) * k + p div n mod k) * t
                                           + p div (n * k) mod t) * n + p mod n))
                          [0..<b * t * k * n]\<rparr>
      | _ \<Rightarrow> Inl RuntimeError)"

text \<open>
  \<open>a + b\<close> of two tensors. The program only adds tensors of one shape
  (\<open>out.view(B, K, T, N) + x\<close>), so broadcasting is not modelled: other shapes are
  rejected.
\<close>

definition tensor_add :: "tensor \<Rightarrow> tensor \<Rightarrow> error + tensor" where
  "tensor_add a b =
     (if shape a = shape b
      then Inr \<lparr>shape = shape a, data = map (\<lambda>p. data a ! p + data b ! p) [0..<numel (shape a)]\<rparr>
      else Inl RuntimeError)"

text \<open>
  \<open>x * y\<close> with \<open>x\<close> of shape \<open>[r, c, l]\<close> and \<open>y\<close> of shape \<open>[r, c, 1]\<close>: \<open>y\<close> is
  broadcast along the last axis, so element \<open>p\<close> of \<open>x\<close> meets element \<open>p div l\<close> of \<open>y\<close>.
\<close>

definition tensor_mul_bcast :: "tensor \<Rightarrow> tensor \<Rightarrow> error + tensor" where
  "tensor_mul_bcast x y =
     (case shape x of
        [r, c, l] \<Rightarrow>
          if shape y = [r, c, 1]
          then Inr \<lparr>shape = [r, c, l],
                    data = map (\<lambda>p. data x ! p * data y ! (p div l)) [0..<r * c * l]\<rparr>
          else Inl RuntimeError
      | _ \<Rightarrow> Inl RuntimeError)"

text \<open>\<open>torch.full(s, v)\<close>: the tensor of shape \<open>s\<close> with every element \<open>v\<close>.\<close>

definition full :: "nat list \<Rightarrow> real \<Rightarrow> tensor" where
  "full s v = \<lparr>shape = s, data = replicate (numel s) v\<rparr>"

text \<open>Reading a tensor of rank 3 or 4 at an index, from its own shape.\<close>

definition at3 :: "tensor \<Rightarrow> nat \<Rightarrow> nat \<Rightarrow> nat \<Rightarrow> real" where
  "at3 x i j p = data x ! ((i * shape x ! 1 + j) * shape x ! 2 + p)"

definition at4 :: "tensor \<Rightarrow> nat \<Rightarrow> nat \<Rightarrow> nat \<Rightarrow> nat \<Rightarrow> real" where
  "at4 x i j p q = data x ! (((i * shape x ! 1 + j) * shape x ! 2 + p) * shape x ! 3 + q)"

definition slice :: "real list \<Rightarrow> nat \<Rightarrow> nat \<Rightarrow> real list" where
  "slice xs len j = take len (drop (j * len) xs)"

definition mean :: "real list \<Rightarrow> real" where
  "mean xs = sum_list xs / real (length xs)"

definition variance :: "real list \<Rightarrow> real" where
  "variance xs = mean (map (\<lambda>v. (v - mean xs)\<^sup>2) xs)"

definition dot :: "real list \<Rightarrow> real list \<Rightarrow> real" where
  "dot ws xs = sum_list (map (\<lambda>c. ws ! c * xs ! c) [0..<length xs])"

section \<open>SELayer1D (se\_layer.py)\<close>

text \<open>
  \<open>nn.Conv1d(cin, cout, kernel_size=1, bias=False)\<close>: the weight is a \<open>cout \<times> cin\<close>
  matrix, and the output at \<open>(i, o, l)\<close> is the dot product of row \<open>o\<close> with the
  input's channel vector at \<open>(i, \<cdot>, l)\<close>. The call raises when the input's channel
  axis is not \<open>cin\<close>, and when the weight has no output channel (a weight of size
  \<open>[0, cin, 1]\<close>, as \<open>SELayer1D(8)\<close> builds it). The program passes batched tensors \<open>[rows, channels, length]\<close>
  only, and the model of the gate's operations accepts rank 3 only.
\<close>

record conv1d =
  in_channels :: nat
  out_channels :: nat
  conv_weight :: "real list list"

definition conv1d_forward :: "conv1d \<Rightarrow> tensor \<Rightarrow> error + tensor" where
  "conv1d_forward cv x =
     (case shape x of
        [r, c, l] \<Rightarrow>
          if out_channels cv = 0 then Inl RuntimeError
          else if c = in_channels cv
          then Inr \<lparr>shape = [r, out_channels cv, l],
                    data = map (\<lambda>p. sum_list (map (\<lambda>ci. conv_weight cv ! (p div l mod out_channels cv) ! ci
                                               * data x ! ((p div (l * out_channels cv) * c + ci) * l + p mod l))
                                            [0..<c]))
                               [0..<r * out_channels cv * l]\<rparr>
          else Inl RuntimeError
      | _ \<Rightarrow> Inl RuntimeError)"

text \<open>
  \<open>nn.AdaptiveAvgPool1d(1)\<close> on \<open>[r, c, l]\<close>: the mean of every \<open>(row, channel)\<close> line,
  a contiguous run of \<open>l\<close> elements. PyTorch rejects an input whose channel or length
  axis is empty.
\<close>

definition avg_pool :: "tensor \<Rightarrow> error + tensor" where
  "avg_pool x =
     (case shape x of
        [r, c, l] \<Rightarrow>
          if c = 0 \<or> l = 0 then Inl RuntimeError
          else Inr \<lparr>shape = [r, c, 1], data = map (\<lambda>j. mean (slice (data x) l j)) [0..<r * c]\<rparr>
      | _ \<Rightarrow> Inl RuntimeError)"

definition relu :: "tensor \<Rightarrow> tensor" where
  "relu x = \<lparr>shape = shape x, data = map (\<lambda>v. max 0 v) (data x)\<rparr>"

text \<open>
  The logistic function, exact. Its value at 0 is \<open>1 / 2\<close>, as in float32; elsewhere
  the float32 sigmoid is a rounding of it and reaches 0 and 1, which this one never
  does.
\<close>

definition sigmoid :: "real \<Rightarrow> real" where
  "sigmoid v = 1 / (1 + exp (- v))"

definition sigmoid_t :: "tensor \<Rightarrow> tensor" where
  "sigmoid_t x = \<lparr>shape = shape x, data = map sigmoid (data x)\<rparr>"

record SELayer1D =
  fc1 :: conv1d
  fc2 :: conv1d

text \<open>
  \<open>SELayer1D.forward\<close>, in two parts: the value \<open>y\<close> before the sigmoid
  (pooling, \<open>fc1\<close>, relu, \<open>fc2\<close>), and the sigmoid with the final product
  \<open>x * y\<close>. \<open>SELayer1D_gate\<close> names the factor \<open>y\<close> of that product.
\<close>

definition SELayer1D_logits :: "SELayer1D \<Rightarrow> tensor \<Rightarrow> error + tensor" where
  "SELayer1D_logits m x =
     ebind (avg_pool x) (\<lambda>y.
     ebind (conv1d_forward (fc1 m) y) (\<lambda>y.
     conv1d_forward (fc2 m) (relu y)))"

definition SELayer1D_gate :: "SELayer1D \<Rightarrow> tensor \<Rightarrow> error + tensor" where
  "SELayer1D_gate m x = ebind (SELayer1D_logits m x) (\<lambda>y. Inr (sigmoid_t y))"

definition SELayer1D_forward :: "SELayer1D \<Rightarrow> tensor \<Rightarrow> error + tensor" where
  "SELayer1D_forward m x = ebind (SELayer1D_gate m x) (\<lambda>y. tensor_mul_bcast x y)"

definition conv1d_ok :: "conv1d \<Rightarrow> bool" where
  "conv1d_ok cv \<longleftrightarrow>
     length (conv_weight cv) = out_channels cv \<and>
     (\<forall>row \<in> set (conv_weight cv). length row = in_channels cv)"

text \<open>A gate built for \<open>c\<close> channels: \<open>fc1\<close> maps \<open>c\<close> to the bottleneck, \<open>fc2\<close> back.\<close>

definition SELayer1D_ok :: "nat \<Rightarrow> SELayer1D \<Rightarrow> bool" where
  "SELayer1D_ok c m \<longleftrightarrow>
     conv1d_ok (fc1 m) \<and> conv1d_ok (fc2 m) \<and> in_channels (fc1 m) = c \<and>
     out_channels (fc1 m) = in_channels (fc2 m) \<and> out_channels (fc2 m) = c"

definition conv1d_zero :: "conv1d \<Rightarrow> bool" where
  "conv1d_zero cv \<longleftrightarrow> (\<forall>row \<in> set (conv_weight cv). \<forall>w \<in> set row. w = 0)"




text \<open>
  \<open>SELayer1D.__init__(channel, reduction=16)\<close>. The parameters are Python integers;
  \<open>channel // reduction\<close> is floor division and raises ZeroDivisionError for a zero
  divisor. \<open>nn.Conv1d\<close> allocates a weight of \<open>cout \<times> cin \<times> 1\<close> elements, which fails
  for a negative size only. The constructor fixes the sizes; the weights start at
  random values, which the model leaves to the module record.
\<close>

record conv1d_sizes =
  cin :: int
  cout :: int

definition Conv1d_init :: "int \<Rightarrow> int \<Rightarrow> error + conv1d_sizes" where
  "Conv1d_init ci co = (if ci < 0 \<or> co < 0 then Inl RuntimeError else Inr \<lparr>cin = ci, cout = co\<rparr>)"

definition floordiv :: "int \<Rightarrow> int \<Rightarrow> error + int" where
  "floordiv a b = (if b = 0 then Inl ZeroDivisionError else Inr (a div b))"

record SELayer1D_sizes =
  fc1_sizes :: conv1d_sizes
  fc2_sizes :: conv1d_sizes

definition SELayer1D_init :: "int \<Rightarrow> int \<Rightarrow> error + SELayer1D_sizes" where
  "SELayer1D_init channel reduction =
     ebind (floordiv channel reduction) (\<lambda>h.
     ebind (Conv1d_init channel h) (\<lambda>c1.
     ebind (floordiv channel reduction) (\<lambda>h'.
     ebind (Conv1d_init h' channel) (\<lambda>c2.
     Inr \<lparr>fc1_sizes = c1, fc2_sizes = c2\<rparr>))))"

definition default_reduction :: int where
  "default_reduction = 16"

section \<open>RNNModule (bandsequence.py)\<close>

text \<open>
  \<open>nn.GroupNorm(num_groups, num_channels)\<close> on an input \<open>[r, c, \<dots>]\<close>: the channels
  are split into \<open>num_groups\<close> groups of \<open>c div num_groups\<close> consecutive channels, and
  every group of every row is normalized by its own mean and (biased) variance, with
  \<open>eps = 1e-5\<close>, then scaled and shifted per channel. In row-major order the group
  \<open>j\<close> is the contiguous run of \<open>c div num_groups * numel rest\<close> elements at that multiple.
  The functional form first checks the batch size (ValueError when a group has a
  single value in the whole input), then the channel count and that the axes after
  the channel axis are not empty.
\<close>

record group_norm =
  num_groups :: nat
  num_channels :: nat
  gn_weight :: "real list"
  gn_bias :: "real list"

definition gn_eps :: real where
  "gn_eps = 1 / 100000"

definition group_norm_forward :: "group_norm \<Rightarrow> tensor \<Rightarrow> error + tensor" where
  "group_norm_forward g x =
     (case shape x of
        r # c # rest \<Rightarrow>
          if num_groups g = 0 then Inl ZeroDivisionError
          else if r * c div num_groups g * numel rest = 1 then Inl ValueError
          else if c \<noteq> num_channels g \<or> c mod num_groups g \<noteq> 0 then Inl RuntimeError
          else if numel rest = 0 then Inl RuntimeError
          else Inr \<lparr>shape = shape x,
                    data = map (\<lambda>p. (data x ! p
                                      - mean (slice (data x) (c div num_groups g * numel rest)
                                                (p div (c div num_groups g * numel rest))))
                                     / sqrt (variance (slice (data x) (c div num_groups g * numel rest)
                                                (p div (c div num_groups g * numel rest))) + gn_eps)
                                     * gn_weight g ! (p div numel rest mod c)
                                     + gn_bias g ! (p div numel rest mod c))
                               [0..<numel (shape x)]\<rparr>
      | _ \<Rightarrow> Inl RuntimeError)"

text \<open>
  \<open>nn.Linear(in_features, out_features)\<close> acts on the last axis: position \<open>p div out\<close>
  of the input (a run of \<open>in_features\<close> elements) gives the output elements
  \<open>weight[o] \<cdot> v + bias[o]\<close>.
\<close>

record linear =
  in_features :: nat
  out_features :: nat
  weight :: "real list list"
  bias :: "real list"

definition linear_forward :: "linear \<Rightarrow> tensor \<Rightarrow> error + tensor" where
  "linear_forward l x =
     (if shape x = [] \<or> last (shape x) \<noteq> in_features l then Inl RuntimeError
      else Inr \<lparr>shape = butlast (shape x) @ [out_features l],
                data = map (\<lambda>p. dot (weight l ! (p mod out_features l))
                                     (slice (data x) (in_features l) (p div out_features l))
                                 + bias l ! (p mod out_features l))
                           [0..<numel (butlast (shape x)) * out_features l]\<rparr>)"

text \<open>
  The recurrence \<open>self.rnn(out)[0]\<close> is a class of torch.nn chosen by name at
  construction; its transform is a parameter of the model: any function from the
  normalized tensor to a result or an error.
\<close>

record RNNModule =
  groupnorm :: group_norm
  rnn :: "tensor \<Rightarrow> error + tensor"
  fc :: linear

text \<open>
  \<open>RNNModule.forward\<close>: the normalization between the two transposes (source lines
  42 to 44), the branch from the unpacking of the shape to \<open>out.view(B, K, T, N)\<close>
  (lines 38 to 48), the residual sum \<open>out.view(B, K, T, N) + x\<close> (line 48), and the
  final \<open>permute(0, 2, 1, 3)\<close> (line 50).
\<close>

definition RNNModule_normalize :: "RNNModule \<Rightarrow> tensor \<Rightarrow> error + tensor" where
  "RNNModule_normalize m out =
     ebind (permute_021 out) (\<lambda>o1.
     ebind (group_norm_forward (groupnorm m) o1) (\<lambda>o2.
     permute_021 o2))"

definition RNNModule_branch :: "RNNModule \<Rightarrow> tensor \<Rightarrow> error + tensor" where
  "RNNModule_branch m x =
     ebind (unpack4 (shape x)) (\<lambda>(B, K, T, N).
     ebind (view x [B * K, T, N]) (\<lambda>out.
     ebind (RNNModule_normalize m out) (\<lambda>out.
     ebind (rnn m out) (\<lambda>out.
     ebind (linear_forward (fc m) out) (\<lambda>out.
     view out [B, K, T, N])))))"

definition RNNModule_residual :: "RNNModule \<Rightarrow> tensor \<Rightarrow> error + tensor" where
  "RNNModule_residual m x = ebind (RNNModule_branch m x) (\<lambda>out. tensor_add out x)"

definition RNNModule_forward :: "RNNModule \<Rightarrow> tensor \<Rightarrow> error + tensor" where
  "RNNModule_forward m x = ebind (RNNModule_residual m x) permute_0213"

text \<open>
  A block of width \<open>n\<close> as the constructor builds it: \<open>GroupNorm(n, n)\<close>, a
  recurrence from \<open>n\<close> features to the input width of \<open>fc\<close>, and \<open>fc\<close> back to
  \<open>n\<close>. Of the recurrence only its contract on shapes is assumed: a non-empty batch
  of non-empty sequences \<open>[r, t, n]\<close> gives \<open>[r, t, h]\<close>.
\<close>

definition linear_ok :: "linear \<Rightarrow> bool" where
  "linear_ok l \<longleftrightarrow>
     length (weight l) = out_features l \<and> length (bias l) = out_features l \<and>
     (\<forall>row \<in> set (weight l). length row = in_features l)"

definition rnn_ok :: "nat \<Rightarrow> nat \<Rightarrow> (tensor \<Rightarrow> error + tensor) \<Rightarrow> bool" where
  "rnn_ok n h f \<longleftrightarrow>
     (\<forall>x r t. shape x = [r, t, n] \<and> wf_tensor x \<and> 0 < r \<and> 0 < t \<longrightarrow>
        (\<exists>y. f x = Inr y \<and> shape y = [r, t, h] \<and> wf_tensor y))"

definition RNNModule_ok :: "nat \<Rightarrow> RNNModule \<Rightarrow> bool" where
  "RNNModule_ok n m \<longleftrightarrow>
     0 < n \<and> num_groups (groupnorm m) = n \<and> num_channels (groupnorm m) = n \<and>
     length (gn_weight (groupnorm m)) = n \<and> length (gn_bias (groupnorm m)) = n \<and>
     rnn_ok n (in_features (fc m)) (rnn m) \<and>
     linear_ok (fc m) \<and> out_features (fc m) = n"

text \<open>The zero maps that stand in for the recurrence and the projection.\<close>

definition zero_rnn :: "nat \<Rightarrow> tensor \<Rightarrow> error + tensor" where
  "zero_rnn h x =
     (case shape x of
        [r, t, n] \<Rightarrow> Inr \<lparr>shape = [r, t, h], data = replicate (r * t * h) 0\<rparr>
      | _ \<Rightarrow> Inl RuntimeError)"

definition zero_linear :: "nat \<Rightarrow> nat \<Rightarrow> linear" where
  "zero_linear i o' =
     \<lparr>in_features = i, out_features = o', weight = replicate o' (replicate i 0),
      bias = replicate o' 0\<rparr>"

text \<open>
  \<open>RNNModule.__init__(input_dim_size, hidden_dim_size, rnn_type='lstm',
  bidirectional=True)\<close>. The constructors fix the sizes of the parameters (their
  values start at random). The classes of torch.nn are not part of the repository;
  they are modelled by the checks their constructors make:
  \<^item> \<open>nn.GroupNorm(g, c)\<close> computes \<open>c % g\<close> (ZeroDivisionError for \<open>g = 0\<close>), raises
    ValueError when it is not 0, and allocates \<open>c\<close> weights (RuntimeError for a
    negative size);
  \<^item> \<open>getattr(nn, name)\<close> raises AttributeError for a name torch.nn does not define.
    Of the names it defines, \<open>RNN\<close>, \<open>LSTM\<close> and \<open>GRU\<close> are the recurrent classes,
    which take \<open>(input_size, hidden_size, batch_first, bidirectional)\<close>; \<open>Identity\<close>
    accepts any arguments; every other one rejects these arguments (or is not
    callable) with TypeError. torch.nn defines more names than are listed in
    \<open>other_nn_names\<close>; a name outside the table is treated as undefined;
  \<^item> a recurrent class raises ValueError for a hidden size that is not positive and
    fails to allocate for a negative input size;
  \<^item> \<open>nn.Linear(i, o)\<close> fails to allocate for a negative size.
\<close>

record group_norm_sizes =
  gn_groups :: int
  gn_channels :: int

definition GroupNorm_init :: "int \<Rightarrow> int \<Rightarrow> error + group_norm_sizes" where
  "GroupNorm_init g c =
     (if g = 0 then Inl ZeroDivisionError
      else if c mod g \<noteq> 0 then Inl ValueError
      else if c < 0 then Inl RuntimeError
      else Inr \<lparr>gn_groups = g, gn_channels = c\<rparr>)"

datatype rnn_class = RNN | LSTM | GRU

datatype nn_attr = RecurrentClass rnn_class | IdentityClass | OtherAttr

definition other_nn_names :: "string list" where
  "other_nn_names =
     [''Module'', ''Linear'', ''Conv1d'', ''GroupNorm'', ''LayerNorm'', ''Sigmoid'', ''Tanh'',
      ''ReLU'', ''Dropout'', ''Embedding'', ''Sequential'', ''ModuleList'', ''RNNBase'',
      ''RNNCell'', ''LSTMCell'', ''GRUCell'', ''MultiheadAttention'', ''functional'', ''init'',
      ''utils'']"

definition nn_getattr :: "string \<Rightarrow> error + nn_attr" where
  "nn_getattr name =
     (if name = ''RNN'' then Inr (RecurrentClass RNN)
      else if name = ''LSTM'' then Inr (RecurrentClass LSTM)
      else if name = ''GRU'' then Inr (RecurrentClass GRU)
      else if name = ''Identity'' then Inr IdentityClass
      else if name \<in> set other_nn_names then Inr OtherAttr
      else Inl AttributeError)"

record rnn_sizes =
  rnn_kind :: rnn_class
  input_size :: int
  hidden_size :: int
  rnn_bidirectional :: bool

definition rnn_init :: "rnn_class \<Rightarrow> int \<Rightarrow> int \<Rightarrow> bool \<Rightarrow> error + rnn_sizes" where
  "rnn_init cls i h bd =
     (if h \<le> 0 then Inl ValueError
      else if i < 0 then Inl RuntimeError
      else Inr \<lparr>rnn_kind = cls, input_size = i, hidden_size = h, rnn_bidirectional = bd\<rparr>)"

text \<open>
  The call \<open>getattr(nn, rnn_type)(input_dim_size, hidden_dim_size, batch_first=True,
  bidirectional=bidirectional)\<close> on the attribute found.
\<close>

datatype built_rnn = Recurrent rnn_sizes | Identity_module

definition nn_call :: "nn_attr \<Rightarrow> int \<Rightarrow> int \<Rightarrow> bool \<Rightarrow> error + built_rnn" where
  "nn_call a i h bd =
     (case a of
        RecurrentClass cls \<Rightarrow> ebind (rnn_init cls i h bd) (\<lambda>r. Inr (Recurrent r))
      | IdentityClass \<Rightarrow> Inr Identity_module
      | OtherAttr \<Rightarrow> Inl TypeError)"

record linear_sizes =
  lin_in :: int
  lin_out :: int

definition Linear_init :: "int \<Rightarrow> int \<Rightarrow> error + linear_sizes" where
  "Linear_init i o' = (if i < 0 \<or> o' < 0 then Inl RuntimeError else Inr \<lparr>lin_in = i, lin_out = o'\<rparr>)"

record RNNModule_sizes =
  groupnorm_sizes :: group_norm_sizes
  rnn_module_sizes :: built_rnn
  fc_sizes :: linear_sizes

definition RNNModule_init :: "int \<Rightarrow> int \<Rightarrow> string \<Rightarrow> bool \<Rightarrow> error + RNNModule_sizes" where
  "RNNModule_init input_dim_size hidden_dim_size rnn_type bidirectional =
     ebind (GroupNorm_init input_dim_size input_dim_size) (\<lambda>gn.
     ebind (nn_getattr rnn_type) (\<lambda>cls.
     ebind (nn_call cls input_dim_size hidden_dim_size bidirectional) (\<lambda>r.
     ebind (Linear_init (if bidirectional then hidden_dim_size * 2 else hidden_dim_size)
                        input_dim_size) (\<lambda>l.
     Inr \<lparr>groupnorm_sizes = gn, rnn_module_sizes = r, fc_sizes = l\<rparr>))))"

definition default_rnn_type :: string where
  "default_rnn_type = ''lstm''"

definition default_bidirectional :: bool where
  "default_bidirectional = True"

section \<open>BandSequenceModelModule (bandsequence.py)\<close>

text \<open>
  \<open>BandSequenceModelModule.__init__(input_dim_size, hidden_dim_size, rnn_type='lstm',
  bidirectional=True, num_layers=12)\<close>: the loop over \<open>range(num_layers)\<close> builds two
  blocks per round, then \<open>num_layers * 2\<close> gates \<open>SELayer1D(input_dim_size)\<close> are built
  with the default reduction. A range of a negative length is empty.
\<close>

record BandSequenceModelModule_sizes =
  bsrnn_sizes :: "(RNNModule_sizes \<times> RNNModule_sizes) list"
  se_layers_sizes :: "SELayer1D_sizes list"

fun build_bsrnn :: "nat \<Rightarrow> int \<Rightarrow> int \<Rightarrow> string \<Rightarrow> bool
                     \<Rightarrow> error + (RNNModule_sizes \<times> RNNModule_sizes) list" where
  "build_bsrnn 0 n h rnn_type bd = Inr []"
| "build_bsrnn (Suc c) n h rnn_type bd =
     ebind (RNNModule_init n h rnn_type bd) (\<lambda>rnn_across_t.
     ebind (RNNModule_init n h rnn_type bd) (\<lambda>rnn_across_k.
     ebind (build_bsrnn c n h rnn_type bd) (\<lambda>rest.
     Inr ((rnn_across_t, rnn_across_k) # rest))))"

fun build_se_layers :: "nat \<Rightarrow> int \<Rightarrow> error + SELayer1D_sizes list" where
  "build_se_layers 0 n = Inr []"
| "build_se_layers (Suc c) n =
     ebind (SELayer1D_init n default_reduction) (\<lambda>g.
     ebind (build_se_layers c n) (\<lambda>rest.
     Inr (g # rest)))"

definition BandSequenceModelModule_init ::
    "int \<Rightarrow> int \<Rightarrow> string \<Rightarrow> bool \<Rightarrow> int \<Rightarrow> error + BandSequenceModelModule_sizes" where
  "BandSequenceModelModule_init input_dim_size hidden_dim_size rnn_type bidirectional num_layers =
     ebind (build_bsrnn (nat num_layers) input_dim_size hidden_dim_size rnn_type bidirectional)
       (\<lambda>layers.
     ebind (build_se_layers (nat (num_layers * 2)) input_dim_size) (\<lambda>gates.
     Inr \<lparr>bsrnn_sizes = layers, se_layers_sizes = gates\<rparr>))"

definition default_num_layers :: int where
  "default_num_layers = 12"


record BandSequenceModelModule =
  bsrnn :: "(RNNModule \<times> RNNModule) list"
  se_layers :: "SELayer1D list"

text \<open>\<open>self.se_layers[se_idx]\<close>: indexing a ModuleList past its end raises IndexError.\<close>

definition module_get :: "'a list \<Rightarrow> nat \<Rightarrow> error + 'a" where
  "module_get ms i = (if i < length ms then Inr (ms ! i) else Inl IndexError)"

text \<open>
  \<open>nn.Sequential\<close> applies its modules in order, each to the result of the one
  before; \<open>self.bsrnn[i]\<close> is \<open>nn.Sequential(rnn_across_t, rnn_across_k)\<close>.
\<close>

fun Sequential_forward :: "RNNModule list \<Rightarrow> tensor \<Rightarrow> error + tensor" where
  "Sequential_forward [] x = Inr x"
| "Sequential_forward (m # ms) x = ebind (RNNModule_forward m x) (Sequential_forward ms)"

definition sequential :: "RNNModule \<times> RNNModule \<Rightarrow> tensor \<Rightarrow> error + tensor" where
  "sequential p x = Sequential_forward [fst p, snd p] x"

text \<open>
  The two gate applications of one iteration of \<open>forward\<close>, each with its lookup
  \<open>self.se_layers[se_idx]\<close>. \<open>first_gate\<close> is source lines 97 to 103 and yields the
  value assigned to \<open>x_\<close> there; \<open>second_gate\<close> is lines 111 to 117 and yields the
  new \<open>x\<close>. Both read \<open>x\<close> and the sizes unpacked from its shape at line 97.
\<close>

definition first_gate :: "SELayer1D list \<Rightarrow> nat \<Rightarrow> tensor \<Rightarrow> error + tensor" where
  "first_gate ses se_idx x =
     ebind (unpack4 (shape x)) (\<lambda>(B, K, T, N).
     ebind (view x [B * K, T, N]) (\<lambda>x'.
     ebind (permute_021 x') (\<lambda>x'.
     ebind (module_get ses se_idx) (\<lambda>g.
     ebind (SELayer1D_forward g x') (\<lambda>x'.
     ebind (permute_021 x') (\<lambda>x'.
     view x' [B, K, T, N]))))))"

definition second_gate :: "SELayer1D list \<Rightarrow> nat \<Rightarrow> tensor \<Rightarrow> error + tensor" where
  "second_gate ses se_idx x =
     ebind (unpack4 (shape x)) (\<lambda>(B, K, T, N).
     ebind (view x [B, K, T, N]) (\<lambda>x'.
     ebind (permute_0213 x') (\<lambda>x'.
     ebind (view x' [B * T, K, N]) (\<lambda>x'.
     ebind (permute_021 x') (\<lambda>x'.
     ebind (module_get ses se_idx) (\<lambda>g.
     ebind (SELayer1D_forward g x') (\<lambda>x'.
     ebind (permute_021 x') (\<lambda>x'.
     ebind (view x' [B, T, K, N]) (\<lambda>x'.
     permute_0213 x')))))))))"

text \<open>
  The loop of \<open>forward\<close> over \<open>range(len(self.bsrnn))\<close>, with the running \<open>se_idx\<close>
  and \<open>x\<close>. The value of the first gate is bound to \<open>x_\<close> and overwritten before any
  use, so only its raising an error can be observed.
\<close>

fun forward_loop :: "SELayer1D list \<Rightarrow> nat \<Rightarrow> (RNNModule \<times> RNNModule) list \<Rightarrow> tensor
                      \<Rightarrow> error + tensor" where
  "forward_loop ses se_idx [] x = Inr x"
| "forward_loop ses se_idx (layer # layers) x =
     ebind (sequential layer x) (\<lambda>x.
     ebind (first_gate ses se_idx x) (\<lambda>x'.
     ebind (second_gate ses (se_idx + 1) x) (\<lambda>x.
     forward_loop ses (se_idx + 2) layers x)))"

definition forward :: "BandSequenceModelModule \<Rightarrow> tensor \<Rightarrow> error + tensor" where
  "forward m x = forward_loop (se_layers m) 0 (bsrnn m) x"

text \<open>
  A stack of width \<open>n\<close> as the constructor builds it: every block has width \<open>n\<close>,
  and there are two gates per layer, each over \<open>n\<close> channels and all with one
  bottleneck width (\<open>n // 16\<close>, which is 0 for a width below 16). \<open>gates_nonempty\<close>
  says that this bottleneck is not 0.
\<close>

definition stack_ok :: "nat \<Rightarrow> BandSequenceModelModule \<Rightarrow> bool" where
  "stack_ok n m \<longleftrightarrow>
     (\<forall>layer \<in> set (bsrnn m). RNNModule_ok n (fst layer) \<and> RNNModule_ok n (snd layer)) \<and>
     length (se_layers m) = 2 * length (bsrnn m) \<and>
     (\<forall>g \<in> set (se_layers m). SELayer1D_ok n g) \<and>
     (\<exists>h. \<forall>g \<in> set (se_layers m). out_channels (fc1 g) = h)"

definition gates_nonempty :: "BandSequenceModelModule \<Rightarrow> bool" where
  "gates_nonempty m \<longleftrightarrow> (\<forall>g \<in> set (se_layers m). 0 < out_channels (fc1 g))"

subsection \<open>Variants the claims compare the code with\<close>

text \<open>
  The same loop for a stack without the even-indexed gates: the iteration goes from
  the two blocks directly to the second gate, \<open>se_layers[se_idx + 1]\<close>.
\<close>

fun forward_loop_odd_gates :: "SELayer1D list \<Rightarrow> nat \<Rightarrow> (RNNModule \<times> RNNModule) list \<Rightarrow> tensor
                      \<Rightarrow> error + tensor" where
  "forward_loop_odd_gates ses se_idx [] x = Inr x"
| "forward_loop_odd_gates ses se_idx (layer # layers) x =
     ebind (sequential layer x) (\<lambda>x.
     ebind (second_gate ses (se_idx + 1) x) (\<lambda>x.
     forward_loop_odd_gates ses (se_idx + 2) layers x))"

definition forward_odd_gates :: "BandSequenceModelModule \<Rightarrow> tensor \<Rightarrow> error + tensor" where
  "forward_odd_gates m x = forward_loop_odd_gates (se_layers m) 0 (bsrnn m) x"

text \<open>
  The values of one feature channel \<open>q\<close> of a folded tensor \<open>[r, t, n]\<close>: along the
  sequence of one row \<open>i\<close>, and over all rows and sequence positions jointly.
\<close>

definition row_channel :: "tensor \<Rightarrow> nat \<Rightarrow> nat \<Rightarrow> real list" where
  "row_channel x i q = map (\<lambda>p. at3 x i p q) [0..<shape x ! 1]"

definition channel_population :: "tensor \<Rightarrow> nat \<Rightarrow> real list" where
  "channel_population x q = concat (map (\<lambda>i. row_channel x i q) [0..<shape x ! 0])"

text \<open>
  The normalization as the specification words it: every channel of \<open>[r, t, n]\<close> is
  normalized by the mean and variance of its whole population, all rows and all
  positions jointly, then scaled and shifted per channel.
\<close>

definition spec_normalize :: "RNNModule \<Rightarrow> tensor \<Rightarrow> tensor" where
  "spec_normalize m x =
     \<lparr>shape = shape x,
      data = map (\<lambda>p. (data x ! p - mean (channel_population x (p mod shape x ! 2)))
                       / sqrt (variance (channel_population x (p mod shape x ! 2)) + gn_eps)
                       * gn_weight (groupnorm m) ! (p mod shape x ! 2)
                       + gn_bias (groupnorm m) ! (p mod shape x ! 2))
                 [0..<numel (shape x)]\<rparr>"

text \<open>
  The order the specification describes: in layer \<open>i\<close>, the time block, gate \<open>2i\<close> on
  its output \<open>[B, T, K, N]\<close> with the band axis pooled, the band block, gate \<open>2i + 1\<close>
  on its output \<open>[B, K, T, N]\<close> with the time axis pooled. \<open>gate_last_axis\<close> gates the
  feature channels of \<open>[b, p, q, n]\<close> from the statistics along \<open>q\<close>.
\<close>

definition gate_last_axis :: "SELayer1D \<Rightarrow> tensor \<Rightarrow> error + tensor" where
  "gate_last_axis g x =
     ebind (unpack4 (shape x)) (\<lambda>(b, p, q, n).
     ebind (view x [b * p, q, n]) (\<lambda>x'.
     ebind (permute_021 x') (\<lambda>x'.
     ebind (SELayer1D_forward g x') (\<lambda>x'.
     ebind (permute_021 x') (\<lambda>x'.
     view x' [b, p, q, n])))))"

fun spec_loop :: "SELayer1D list \<Rightarrow> nat \<Rightarrow> (RNNModule \<times> RNNModule) list \<Rightarrow> tensor
                      \<Rightarrow> error + tensor" where
  "spec_loop ses se_idx [] x = Inr x"
| "spec_loop ses se_idx (layer # layers) x =
     ebind (RNNModule_forward (fst layer) x) (\<lambda>x.
     ebind (module_get ses se_idx) (\<lambda>g0.
     ebind (gate_last_axis g0 x) (\<lambda>x.
     ebind (RNNModule_forward (snd layer) x) (\<lambda>x.
     ebind (module_get ses (se_idx + 1)) (\<lambda>g1.
     ebind (gate_last_axis g1 x) (\<lambda>x.
     spec_loop ses (se_idx + 2) layers x))))))"

definition spec_forward :: "BandSequenceModelModule \<Rightarrow> tensor \<Rightarrow> error + tensor" where
  "spec_forward m x = spec_loop (se_layers m) 0 (bsrnn m) x"

subsection \<open>Example modules and inputs\<close>

text \<open>
  A gate over 16 channels with bottleneck 1, as \<open>SELayer1D(16)\<close> sizes it, with both
  projections zero.
\<close>

definition ex_gate :: SELayer1D where
  "ex_gate =
     \<lparr>fc1 = \<lparr>in_channels = 16, out_channels = 1, conv_weight = [replicate 16 0]\<rparr>,
      fc2 = \<lparr>in_channels = 1, out_channels = 16, conv_weight = replicate 16 [0]\<rparr>\<rparr>"


text \<open>
  A block of width 16 whose recurrence (hidden width 2, both directions) and
  projection are zero maps, a stack of one layer of such blocks with two zero gates,
  and an input with one batch entry, two bands, one time step and 16 features,
  every element 1.
\<close>

definition ex_block :: RNNModule where
  "ex_block =
     \<lparr>groupnorm = \<lparr>num_groups = 16, num_channels = 16, gn_weight = replicate 16 1,
                   gn_bias = replicate 16 0\<rparr>,
      rnn = zero_rnn 4,
      fc = zero_linear 4 16\<rparr>"

text \<open>A block of width 1 and a folded input of two rows, one position, one feature.\<close>

definition ex_block1 :: RNNModule where
  "ex_block1 =
     \<lparr>groupnorm = \<lparr>num_groups = 1, num_channels = 1, gn_weight = [1], gn_bias = [0]\<rparr>,
      rnn = zero_rnn 2,
      fc = zero_linear 2 1\<rparr>"

definition ex_two_rows :: tensor where
  "ex_two_rows = \<lparr>shape = [2, 1, 1], data = [1, 3]\<rparr>"




definition ex_stack :: BandSequenceModelModule where
  "ex_stack = \<lparr>bsrnn = [(ex_block, ex_block)], se_layers = [ex_gate, ex_gate]\<rparr>"

definition ex_input :: tensor where
  "ex_input = full [1, 2, 1, 16] 1"

section \<open>Basic facts\<close>

lemma ebind_Inl [simp]: "ebind (Inl e) f = Inl e"
  by (simp add: ebind_def)

lemma ebind_Inr [simp]: "ebind (Inr a) f = f a"
  by (simp add: ebind_def)

lemma ebind_eq_Inr: "ebind m f = Inr y \<longleftrightarrow> (\<exists>a. m = Inr a \<and> f a = Inr y)"
  by (cases m) simp_all

lemma sigmoid_zero: "sigmoid 0 = 1 / 2"
  by (simp add: sigmoid_def)

lemma offset_less: "i < m \<Longrightarrow> j < n \<Longrightarrow> i * n + j < m * (n::nat)"
proof -
  assume a: "i < m" "j < n"
  have "i * n + j < Suc i * n" using a by simp
  also have "\<dots> \<le> m * n" using a by (intro mult_le_mono1) simp
  finally show ?thesis .
qed

lemma SELayer1D_logits_shape:
  assumes "SELayer1D_ok c m" "0 < out_channels (fc1 m)" "shape x = [r, c, l]" "0 < c" "0 < l"
  shows "\<exists>y. SELayer1D_logits m x = Inr y \<and> shape y = [r, c, 1] \<and> length (data y) = r * c"
  using assms
  by (simp add: SELayer1D_logits_def SELayer1D_ok_def avg_pool_def conv1d_forward_def relu_def)

lemma SELayer1D_gate_shape:
  assumes "SELayer1D_ok c m" "0 < out_channels (fc1 m)" "shape x = [r, c, l]" "0 < c" "0 < l"
  shows "\<exists>g. SELayer1D_gate m x = Inr g \<and> shape g = [r, c, 1] \<and> length (data g) = r * c"
proof -
  from SELayer1D_logits_shape [OF assms] obtain y where
    y: "SELayer1D_logits m x = Inr y" "shape y = [r, c, 1]" "length (data y) = r * c"
    by blast
  then show ?thesis
    by (simp add: SELayer1D_gate_def sigmoid_t_def)
qed

lemma SELayer1D_forward_of_gate:
  assumes "SELayer1D_gate m x = Inr g" "shape g = [r, c, 1]" "shape x = [r, c, l]"
  shows "SELayer1D_forward m x =
           Inr \<lparr>shape = [r, c, l], data = map (\<lambda>p. data x ! p * data g ! (p div l)) [0..<r * c * l]\<rparr>"
  using assms by (simp add: SELayer1D_forward_def tensor_mul_bcast_def)

text \<open>A gate whose bottleneck is empty raises in \<open>fc1\<close>, after the pooling.\<close>

lemma SELayer1D_forward_empty_bottleneck:
  assumes "SELayer1D_ok c m" "out_channels (fc1 m) = 0" "shape x = [r, c, l]" "0 < c" "0 < l"
  shows "SELayer1D_forward m x = Inl RuntimeError"
  using assms
  by (simp add: SELayer1D_forward_def SELayer1D_gate_def SELayer1D_logits_def avg_pool_def
      conv1d_forward_def)

lemma at3_eq: "shape x = [r, c, l] \<Longrightarrow> at3 x i j p = data x ! ((i * c + j) * l + p)"
  by (simp add: at3_def)

lemma at4_eq:
  "shape x = [b, k, t, n] \<Longrightarrow> at4 x i j p q = data x ! (((i * k + j) * t + p) * n + q)"
  by (simp add: at4_def)

subsection \<open>The example modules are well-formed\<close>

lemma ex_gate_ok: "SELayer1D_ok 16 ex_gate"
  by (simp add: SELayer1D_ok_def conv1d_ok_def ex_gate_def)

lemma ex_gate_zero: "conv1d_zero (fc1 ex_gate)" "conv1d_zero (fc2 ex_gate)"
  by (simp_all add: conv1d_zero_def ex_gate_def)

lemma ex_gate_bottleneck: "0 < out_channels (fc1 ex_gate)"
  by (simp add: ex_gate_def)



lemma rnn_ok_zero_rnn: "rnn_ok n h (zero_rnn h)"
  by (simp add: rnn_ok_def zero_rnn_def wf_tensor_def numel_def)

lemma linear_ok_zero_linear: "linear_ok (zero_linear i o')"
  by (simp add: linear_ok_def zero_linear_def)

lemma ex_block_ok: "RNNModule_ok 16 ex_block"
  by (simp add: RNNModule_ok_def ex_block_def rnn_ok_zero_rnn linear_ok_zero_linear)
     (simp add: zero_linear_def rnn_ok_zero_rnn)

lemma ex_stack_ok: "stack_ok 16 ex_stack"
  unfolding stack_ok_def
  by (intro conjI exI [of _ "out_channels (fc1 ex_gate)"])
     (simp_all add: ex_stack_def ex_block_ok ex_gate_ok)


lemma ex_input_valid: "shape ex_input = [1, 2, 1, 16]" "wf_tensor ex_input"
  by (simp_all add: ex_input_def full_def wf_tensor_def numel_def)

lemma conv_weight_zero:
  assumes "conv1d_ok cv" "conv1d_zero cv" "o' < out_channels cv" "ci < in_channels cv"
  shows "conv_weight cv ! o' ! ci = 0"
proof -
  have row: "conv_weight cv ! o' \<in> set (conv_weight cv)"
    using assms(1,3) by (simp add: conv1d_ok_def)
  then have "length (conv_weight cv ! o') = in_channels cv"
    using assms(1) by (simp add: conv1d_ok_def)
  then have "conv_weight cv ! o' ! ci \<in> set (conv_weight cv ! o')"
    using assms(4) by simp
  with row assms(2) show ?thesis
    unfolding conv1d_zero_def by blast
qed

lemma sum_list_zero: "(\<And>v. v \<in> set xs \<Longrightarrow> f v = (0::real)) \<Longrightarrow> sum_list (map f xs) = 0"
  by (induction xs) simp_all

lemma map_upt_const: "(\<And>p. p < n \<Longrightarrow> f p = v) \<Longrightarrow> map f [0..<n] = replicate n v"
  by (rule nth_equalityI) simp_all

lemma conv1d_forward_zero:
  assumes "conv1d_ok cv" "conv1d_zero cv" "shape x = [r, in_channels cv, l]" "0 < out_channels cv"
  shows "conv1d_forward cv x =
           Inr \<lparr>shape = [r, out_channels cv, l], data = replicate (r * out_channels cv * l) 0\<rparr>"
proof -
  have "sum_list (map (\<lambda>ci. conv_weight cv ! (p div l mod out_channels cv) ! ci
                   * data x ! ((p div (l * out_channels cv) * in_channels cv + ci) * l + p mod l))
                 [0..<in_channels cv]) = 0"
    if "p < r * out_channels cv * l" for p
  proof -
    have "0 < out_channels cv" using that by (cases "out_channels cv") simp_all
    then have "p div l mod out_channels cv < out_channels cv" by simp
    then show ?thesis
      using conv_weight_zero [OF assms(1,2)] by (intro sum_list_zero) simp
  qed
  then show ?thesis
    using assms(3,4) by (simp add: conv1d_forward_def map_upt_const)
qed

lemma map_nth_scale: "map (\<lambda>p. xs ! p * (k::real)) [0..<length xs] = map (\<lambda>v. v * k) xs"
  by (rule nth_equalityI) simp_all

lemma SELayer1D_logits_zero:
  assumes "SELayer1D_ok c m" "conv1d_zero (fc1 m)" "conv1d_zero (fc2 m)"
    and "shape x = [r, c, l]" "0 < c" "0 < l" "0 < out_channels (fc1 m)"
  shows "SELayer1D_logits m x = Inr \<lparr>shape = [r, c, 1], data = replicate (r * c) 0\<rparr>"
proof -
  have ok: "conv1d_ok (fc1 m)" "conv1d_ok (fc2 m)" "in_channels (fc1 m) = c"
    "out_channels (fc1 m) = in_channels (fc2 m)" "out_channels (fc2 m) = c"
    using assms(1) by (simp_all add: SELayer1D_ok_def)
  have pool: "avg_pool x = Inr \<lparr>shape = [r, c, 1], data = map (\<lambda>j. mean (slice (data x) l j)) [0..<r * c]\<rparr>"
    using assms(4,5,6) by (simp add: avg_pool_def)
  have c1: "conv1d_forward (fc1 m) \<lparr>shape = [r, c, 1], data = map (\<lambda>j. mean (slice (data x) l j)) [0..<r * c]\<rparr>
            = Inr \<lparr>shape = [r, in_channels (fc2 m), 1], data = replicate (r * in_channels (fc2 m) * 1) 0\<rparr>"
    using conv1d_forward_zero [OF ok(1) assms(2), of _ r 1] ok(3,4) assms(7) by simp
  have c2: "conv1d_forward (fc2 m) (relu \<lparr>shape = [r, in_channels (fc2 m), 1], data = replicate (r * in_channels (fc2 m) * 1) 0\<rparr>)
            = Inr \<lparr>shape = [r, c, 1], data = replicate (r * c) 0\<rparr>"
    using conv1d_forward_zero [OF ok(2) assms(3), of _ r 1] ok(5) assms(5) by (simp add: relu_def)
  show ?thesis
    by (simp only: SELayer1D_logits_def pool ebind_Inr c1 c2)
qed

lemma tensor_mul_bcast_const:
  assumes "shape x = [r, c, l]" "wf_tensor x"
  shows "tensor_mul_bcast x \<lparr>shape = [r, c, 1], data = replicate (r * c) g\<rparr>
           = Inr \<lparr>shape = shape x, data = map (\<lambda>v. v * g) (data x)\<rparr>"
proof -
  have len: "length (data x) = r * c * l"
    using assms by (simp add: wf_tensor_def numel_def)
  have "map (\<lambda>p. data x ! p * replicate (r * c) g ! (p div l)) [0..<r * c * l]
        = map (\<lambda>p. data x ! p * g) [0..<r * c * l]"
    by (rule map_cong) (simp_all add: less_mult_imp_div_less)
  also have "\<dots> = map (\<lambda>v. v * g) (data x)"
    using map_nth_scale [of "data x" g] len by simp
  finally show ?thesis
    using assms(1) by (simp add: tensor_mul_bcast_def)
qed

lemma SELayer1D_forward_half:
  assumes "SELayer1D_ok c m" "conv1d_zero (fc1 m)" "conv1d_zero (fc2 m)"
    and "shape x = [r, c, l]" "wf_tensor x" "0 < c" "0 < l" "0 < out_channels (fc1 m)"
  shows "SELayer1D_forward m x = Inr \<lparr>shape = shape x, data = map (\<lambda>v. v * (1 / 2)) (data x)\<rparr>"
  using SELayer1D_logits_zero [OF assms(1-4,6,7,8)] tensor_mul_bcast_const [OF assms(4,5), of "1 / 2"]
  by (simp add: SELayer1D_forward_def SELayer1D_gate_def sigmoid_t_def sigmoid_zero)

section \<open>The channel gate\<close>




section \<open>Tensor operations\<close>

lemma numel_simps [simp]: "numel [] = 1" "numel (d # ds) = d * numel ds"
  by (simp_all add: numel_def)

lemma view_Inr: "numel s = numel (shape x) \<Longrightarrow> view x s = Inr \<lparr>shape = s, data = data x\<rparr>"
  by (simp add: view_def)

lemma permute_021_Inr:
  "shape x = [r, a, b] \<Longrightarrow>
   permute_021 x = Inr \<lparr>shape = [r, b, a],
       data = map (\<lambda>p. data x ! ((p div (a * b) * a + p mod a) * b + p div a mod b)) [0..<r * b * a]\<rparr>"
  by (simp add: permute_021_def)

lemma permute_0213_Inr:
  "shape x = [b, k, t, n] \<Longrightarrow>
   permute_0213 x = Inr \<lparr>shape = [b, t, k, n],
       data = map (\<lambda>p. data x ! (((p div (n * k * t) * k + p div n mod k) * t
                                           + p div (n * k) mod t) * n + p mod n))
                          [0..<b * t * k * n]\<rparr>"
  by (simp add: permute_0213_def)

lemma offset3_less: "i < r \<Longrightarrow> j < c \<Longrightarrow> p < l \<Longrightarrow> (i * c + j) * l + p < r * c * (l::nat)"
  by (intro offset_less)

lemma offset4_less:
  "i < b \<Longrightarrow> j < k \<Longrightarrow> p < t \<Longrightarrow> q < n \<Longrightarrow> ((i * k + j) * t + p) * n + q < b * k * t * (n::nat)"
  by (intro offset_less)

lemma permute_021_at:
  assumes "permute_021 x = Inr y" "shape x = [r, a, b]" "i < r" "j < b" "p < a"
  shows "at3 y i j p = at3 x i p j"
proof -
  have lt: "(i * b + j) * a + p < r * b * a" using assms(3-5) by (rule offset3_less)
  have "((i * b + j) * a + p) div (a * b) = i"
    using assms(4,5) by (simp add: div_mult2_eq)
  moreover have "((i * b + j) * a + p) div a mod b = j" "((i * b + j) * a + p) mod a = p"
    using assms(4,5) by simp_all
  ultimately show ?thesis
    using assms(1,2) lt by (auto simp add: permute_021_Inr at3_def)
qed


subsection \<open>Constant tensors\<close>

lemma full_simps [simp]: "shape (full s v) = s" "data (full s v) = replicate (numel s) v"
  by (simp_all add: full_def)

lemma wf_full: "wf_tensor (full s v)"
  by (simp add: wf_tensor_def)

lemma view_full: "numel s' = numel s \<Longrightarrow> view (full s v) s' = Inr (full s' v)"
  by (simp add: view_def full_def)

lemma permute_021_src_less:
  assumes "p < r * b * a"
  shows "(p div (a * b) * a + p mod a) * b + p div a mod b < r * a * (b::nat)"
proof -
  have pos: "0 < a" "0 < b" using assms by (cases a; cases b; simp)+
  have "p < r * (a * b)" using assms by (simp add: mult_ac)
  then have "p div (a * b) < r" by (rule less_mult_imp_div_less)
  then show ?thesis using pos by (intro offset3_less) simp_all
qed

lemma permute_0213_src_less:
  assumes "p < b * t * k * n"
  shows "((p div (n * k * t) * k + p div n mod k) * t + p div (n * k) mod t) * n + p mod n
           < b * k * t * (n::nat)"
proof -
  have pos: "0 < t" "0 < k" "0 < n" using assms by (cases t; cases k; cases n; simp)+
  have "p < b * (n * k * t)" using assms by (simp add: mult_ac)
  then have "p div (n * k * t) < b" by (rule less_mult_imp_div_less)
  then show ?thesis using pos by (intro offset4_less) simp_all
qed

lemma permute_021_full: "permute_021 (full [r, a, b] v) = Inr (full [r, b, a] v)"
proof -
  have "map (\<lambda>p. replicate (r * a * b) v ! ((p div (a * b) * a + p mod a) * b + p div a mod b))
          [0..<r * b * a] = replicate (r * b * a) v"
    by (rule map_upt_const) (simp add: permute_021_src_less)
  then show ?thesis by (simp add: permute_021_def full_def mult.assoc)
qed

lemma permute_0213_full: "permute_0213 (full [b, k, t, n] v) = Inr (full [b, t, k, n] v)"
proof -
  have "map (\<lambda>p. replicate (b * k * t * n) v ! (((p div (n * k * t) * k + p div n mod k) * t
                   + p div (n * k) mod t) * n + p mod n))
          [0..<b * t * k * n] = replicate (b * t * k * n) v"
    by (rule map_upt_const) (simp add: permute_0213_src_less)
  then show ?thesis by (simp add: permute_0213_def full_def mult.assoc)
qed

section \<open>The recurrent block\<close>

lemma group_norm_forward_Inr:
  assumes "num_groups g = n" "num_channels g = n" "0 < n" "shape x = [r, n, l]" "r * l \<noteq> 1"
    and "0 < l"
  shows "group_norm_forward g x =
     Inr \<lparr>shape = [r, n, l],
          data = map (\<lambda>p. (data x ! p - mean (slice (data x) l (p div l)))
                           / sqrt (variance (slice (data x) l (p div l)) + gn_eps)
                           * gn_weight g ! (p div l mod n) + gn_bias g ! (p div l mod n))
                     [0..<r * n * l]\<rparr>"
  using assms by (simp add: group_norm_forward_def mult.assoc)

lemma RNNModule_normalize_shape:
  assumes "RNNModule_ok n m" "shape x = [r, t, n]" "r * t \<noteq> 1" "0 < t"
  shows "\<exists>y. RNNModule_normalize m x = Inr y \<and> shape y = [r, t, n] \<and> wf_tensor y"
proof -
  have g: "num_groups (groupnorm m) = n" "num_channels (groupnorm m) = n" "0 < n"
    using assms(1) by (simp_all add: RNNModule_ok_def)
  obtain o1 where o1: "permute_021 x = Inr o1" "shape o1 = [r, n, t]"
    using assms(2) by (simp add: permute_021_Inr)
  obtain o2 where o2: "group_norm_forward (groupnorm m) o1 = Inr o2" "shape o2 = [r, n, t]"
    using group_norm_forward_Inr [OF g o1(2) assms(3,4)] by simp
  show ?thesis
    using o1 o2 by (simp add: RNNModule_normalize_def permute_021_Inr wf_tensor_def)
qed

lemma linear_forward_shape:
  assumes "shape x = [r, t, in_features l]"
  shows "\<exists>y. linear_forward l x = Inr y \<and> shape y = [r, t, out_features l] \<and> wf_tensor y"
  using assms by (simp add: linear_forward_def wf_tensor_def)

lemma RNNModule_branch_shape:
  assumes "RNNModule_ok n m" "shape x = [b, k, t, n]" "0 < b" "0 < k" "0 < t" "b * k * t \<noteq> 1"
  shows "\<exists>out. RNNModule_branch m x = Inr out \<and> shape out = [b, k, t, n] \<and> wf_tensor out"
proof -
  have ok: "rnn_ok n (in_features (fc m)) (rnn m)" "out_features (fc m) = n"
    using assms(1) by (simp_all add: RNNModule_ok_def)
  have v: "view x [b * k, t, n] = Inr \<lparr>shape = [b * k, t, n], data = data x\<rparr>"
    using assms(2) by (simp add: view_Inr)
  obtain o1 where o1: "RNNModule_normalize m \<lparr>shape = [b * k, t, n], data = data x\<rparr> = Inr o1"
      "shape o1 = [b * k, t, n]" "wf_tensor o1"
    using RNNModule_normalize_shape [OF assms(1), of "\<lparr>shape = [b * k, t, n], data = data x\<rparr>" "b * k" t]
      assms(5,6) by auto
  have "0 < b * k" using assms(3,4) by simp
  then obtain o2 where o2: "rnn m o1 = Inr o2" "shape o2 = [b * k, t, in_features (fc m)]" "wf_tensor o2"
    using ok(1) o1(2,3) assms(5) unfolding rnn_ok_def by blast
  obtain o3 where o3: "linear_forward (fc m) o2 = Inr o3" "shape o3 = [b * k, t, n]" "wf_tensor o3"
    using linear_forward_shape [OF o2(2)] ok(2) by auto
  have "view o3 [b, k, t, n] = Inr \<lparr>shape = [b, k, t, n], data = data o3\<rparr>"
    using o3(2) by (simp add: view_Inr)
  then show ?thesis
    using assms(2) v o1(1) o2(1) o3
    by (simp add: RNNModule_branch_def wf_tensor_def)
qed

lemma tensor_add_Inr:
  "shape a = shape b \<Longrightarrow>
   tensor_add a b = Inr \<lparr>shape = shape a, data = map (\<lambda>p. data a ! p + data b ! p) [0..<numel (shape a)]\<rparr>"
  by (simp add: tensor_add_def)


lemma RNNModule_forward_shape:
  assumes "RNNModule_ok n m" "shape x = [b, k, t, n]" "0 < b" "0 < k" "0 < t" "b * k * t \<noteq> 1"
  shows "\<exists>out s y. RNNModule_branch m x = Inr out \<and> shape out = [b, k, t, n] \<and> wf_tensor out \<and>
           RNNModule_residual m x = Inr s \<and> tensor_add out x = Inr s \<and> shape s = [b, k, t, n] \<and>
           RNNModule_forward m x = Inr y \<and> permute_0213 s = Inr y \<and> shape y = [b, t, k, n] \<and> wf_tensor y"
proof -
  obtain out where out: "RNNModule_branch m x = Inr out" "shape out = [b, k, t, n]" "wf_tensor out"
    using RNNModule_branch_shape [OF assms] by blast
  obtain s where s: "tensor_add out x = Inr s" "shape s = [b, k, t, n]"
    using out(2) assms(2) by (simp add: tensor_add_Inr)
  obtain y where y: "permute_0213 s = Inr y" "shape y = [b, t, k, n]" "wf_tensor y"
    using s(2) by (simp add: permute_0213_Inr wf_tensor_def)
  have "RNNModule_residual m x = Inr s"
    by (simp add: RNNModule_residual_def out(1) s(1))
  moreover from this have "RNNModule_forward m x = Inr y"
    by (simp add: RNNModule_forward_def y(1))
  ultimately show ?thesis
    using out s y by blast
qed




section \<open>Gates and the loop of the stack\<close>

lemma SELayer1D_forward_shape:
  assumes "SELayer1D_ok c m" "0 < out_channels (fc1 m)" "shape x = [r, c, l]" "0 < c" "0 < l"
  shows "\<exists>y. SELayer1D_forward m x = Inr y \<and> shape y = [r, c, l] \<and> wf_tensor y"
proof -
  obtain g where "SELayer1D_gate m x = Inr g" "shape g = [r, c, 1]"
    using SELayer1D_gate_shape [OF assms] by blast
  then show ?thesis
    using SELayer1D_forward_of_gate [OF _ _ assms(3)] by (simp add: wf_tensor_def)
qed

lemma gate_last_axis_shape:
  assumes "SELayer1D_ok n g" "shape x = [b, p, q, n]" "0 < q" "0 < n" "0 < out_channels (fc1 g)"
  shows "\<exists>y. gate_last_axis g x = Inr y \<and> shape y = [b, p, q, n] \<and> wf_tensor y"
proof -
  have v: "view x [b * p, q, n] = Inr \<lparr>shape = [b * p, q, n], data = data x\<rparr>"
    using assms(2) by (simp add: view_Inr)
  obtain x1 where x1: "permute_021 \<lparr>shape = [b * p, q, n], data = data x\<rparr> = Inr x1"
      "shape x1 = [b * p, n, q]"
    by (simp add: permute_021_Inr)
  obtain x2 where x2: "SELayer1D_forward g x1 = Inr x2" "shape x2 = [b * p, n, q]"
    using SELayer1D_forward_shape [OF assms(1,5) x1(2) assms(4,3)] by blast
  obtain x3 where x3: "permute_021 x2 = Inr x3" "shape x3 = [b * p, q, n]" "wf_tensor x3"
    using x2(2) by (simp add: permute_021_Inr wf_tensor_def)
  have "view x3 [b, p, q, n] = Inr \<lparr>shape = [b, p, q, n], data = data x3\<rparr>"
    using x3(2) by (simp add: view_Inr)
  then show ?thesis
    using assms(2) v x1(1) x2(1) x3
    by (simp add: gate_last_axis_def wf_tensor_def)
qed

lemma module_get_Inr: "i < length ms \<Longrightarrow> module_get ms i = Inr (ms ! i)"
  by (simp add: module_get_def)

lemma first_gate_eq:
  "module_get ses i = Inr g \<Longrightarrow> shape x = [b, k, t, n] \<Longrightarrow> first_gate ses i x = gate_last_axis g x"
  by (simp add: first_gate_def gate_last_axis_def view_Inr permute_021_Inr)

lemma second_gate_shape:
  assumes "SELayer1D_ok n g" "shape x = [b, k, t, n]" "0 < k" "0 < n" "module_get ses i = Inr g"
    and "0 < out_channels (fc1 g)"
  shows "\<exists>y. second_gate ses i x = Inr y \<and> shape y = [b, k, t, n] \<and> wf_tensor y"
proof -
  have v: "view x [b, k, t, n] = Inr \<lparr>shape = [b, k, t, n], data = data x\<rparr>"
    using assms(2) by (simp add: view_Inr)
  obtain x1 where x1: "permute_0213 \<lparr>shape = [b, k, t, n], data = data x\<rparr> = Inr x1"
      "shape x1 = [b, t, k, n]"
    by (simp add: permute_0213_Inr)
  have v2: "view x1 [b * t, k, n] = Inr \<lparr>shape = [b * t, k, n], data = data x1\<rparr>"
    using x1(2) by (simp add: view_Inr)
  obtain x2 where x2: "permute_021 \<lparr>shape = [b * t, k, n], data = data x1\<rparr> = Inr x2"
      "shape x2 = [b * t, n, k]"
    by (simp add: permute_021_Inr)
  obtain x3 where x3: "SELayer1D_forward g x2 = Inr x3" "shape x3 = [b * t, n, k]"
    using SELayer1D_forward_shape [OF assms(1,6) x2(2) assms(4,3)] by blast
  obtain x4 where x4: "permute_021 x3 = Inr x4" "shape x4 = [b * t, k, n]"
    using x3(2) by (simp add: permute_021_Inr)
  have v3: "view x4 [b, t, k, n] = Inr \<lparr>shape = [b, t, k, n], data = data x4\<rparr>"
    using x4(2) by (simp add: view_Inr)
  obtain x5 where x5: "permute_0213 \<lparr>shape = [b, t, k, n], data = data x4\<rparr> = Inr x5"
      "shape x5 = [b, k, t, n]" "wf_tensor x5"
    by (simp add: permute_0213_Inr wf_tensor_def)
  show ?thesis
    using assms(2,5) v x1(1) v2 x2(1) x3(1) x4(1) v3 x5
    by (simp add: second_gate_def)
qed

lemma Sequential_forward_shape:
  assumes "\<forall>m \<in> set ms. RNNModule_ok n m" "shape x = [b, k, t, n]" "wf_tensor x"
    "0 < b" "0 < k" "0 < t" "b * k * t \<noteq> 1"
  shows "\<exists>y. Sequential_forward ms x = Inr y \<and> wf_tensor y \<and>
             shape y = (if even (length ms) then [b, k, t, n] else [b, t, k, n])"
  using assms
proof (induction ms arbitrary: x k t)
  case Nil
  then show ?case by simp
next
  case (Cons m ms)
  have "RNNModule_ok n m" using Cons.prems(1) by simp
  from RNNModule_forward_shape [OF this Cons.prems(2,4,5,6,7)]
  obtain y where y: "RNNModule_forward m x = Inr y" "shape y = [b, t, k, n]" "wf_tensor y"
    by blast
  have "b * t * k \<noteq> 1" using Cons.prems(7) by (simp add: mult.assoc mult.commute [of t k])
  with Cons.IH [OF _ y(2,3) Cons.prems(4,6,5)] Cons.prems(1)
  obtain z where "Sequential_forward ms y = Inr z" "wf_tensor z"
      "shape z = (if even (length ms) then [b, t, k, n] else [b, k, t, n])"
    by auto
  then show ?case using y(1) by simp
qed

lemma forward_loop_shape:
  assumes "\<forall>layer \<in> set layers. RNNModule_ok n (fst layer) \<and> RNNModule_ok n (snd layer)"
    and "se_idx + 2 * length layers \<le> length ses" "\<forall>g \<in> set ses. SELayer1D_ok n g"
    and "shape x = [b, k, t, n]" "wf_tensor x" "0 < b" "0 < k" "0 < t" "b * k * t \<noteq> 1"
    and "\<forall>g \<in> set ses. 0 < out_channels (fc1 g)"
  shows "\<exists>y. forward_loop ses se_idx layers x = Inr y \<and> shape y = [b, k, t, n] \<and> wf_tensor y"
  using assms(1,2,4,5)
proof (induction layers arbitrary: se_idx x)
  case Nil
  then show ?case by simp
next
  case (Cons layer layers)
  have ok: "\<forall>m \<in> set [fst layer, snd layer]. RNNModule_ok n m"
    using Cons.prems(1) by simp
  then have n: "0 < n" by (simp add: RNNModule_ok_def)
  obtain x1 where x1: "sequential layer x = Inr x1" "shape x1 = [b, k, t, n]" "wf_tensor x1"
    using Sequential_forward_shape [OF ok Cons.prems(3,4) assms(6-9)]
    by (auto simp: sequential_def)
  have i0: "se_idx < length ses" and i1: "se_idx + 1 < length ses"
    using Cons.prems(2) by simp_all
  then have g: "SELayer1D_ok n (ses ! se_idx)" "SELayer1D_ok n (ses ! (se_idx + 1))"
    and h: "0 < out_channels (fc1 (ses ! se_idx))" "0 < out_channels (fc1 (ses ! (se_idx + 1)))"
    using assms(3,10) by simp_all
  obtain x2 where x2: "first_gate ses se_idx x1 = Inr x2"
    using gate_last_axis_shape [OF g(1) x1(2) assms(8) n h(1)]
      first_gate_eq [OF module_get_Inr [OF i0] x1(2)] by auto
  obtain x3 where x3: "second_gate ses (se_idx + 1) x1 = Inr x3" "shape x3 = [b, k, t, n]"
      "wf_tensor x3"
    using second_gate_shape [OF g(2) x1(2) assms(7) n module_get_Inr [OF i1] h(2)] by blast
  have "se_idx + 2 + 2 * length layers \<le> length ses" using Cons.prems(2) by simp
  from Cons.IH [OF _ this x3(2,3)] Cons.prems(1)
  obtain y where "forward_loop ses (se_idx + 2) layers x3 = Inr y" "shape y = [b, k, t, n]"
      "wf_tensor y"
    by auto
  then show ?case
    using x1(1) x2 x3(1) by simp
qed

lemma forward_loop_odd_gates:
  "forward_loop ses se_idx layers x = Inr y \<Longrightarrow> forward_loop_odd_gates ses se_idx layers x = Inr y"
proof (induction layers arbitrary: se_idx x)
  case Nil
  then show ?case by simp
next
  case (Cons layer layers)
  from Cons.prems obtain x1 x' x2 where
    s: "sequential layer x = Inr x1" "first_gate ses se_idx x1 = Inr x'"
       "second_gate ses (se_idx + 1) x1 = Inr x2"
       "forward_loop ses (se_idx + 2) layers x2 = Inr y"
    by (auto simp: ebind_eq_Inr)
  from Cons.IH [OF s(4)] s(1,3) show ?case by simp
qed

text \<open>With an empty bottleneck both gate applications raise the same error.\<close>

lemma first_gate_empty_bottleneck:
  assumes "SELayer1D_ok n g" "out_channels (fc1 g) = 0" "module_get ses i = Inr g"
    and "shape x = [b, k, t, n]" "0 < t" "0 < n"
  shows "first_gate ses i x = Inl RuntimeError"
proof -
  have "SELayer1D_forward g
          \<lparr>shape = [b * k, n, t],
             data = map (\<lambda>p. data x ! ((p div (t * n) * t + p mod t) * n + p div t mod n))
                        [0..<b * k * n * t]\<rparr> = Inl RuntimeError"
    by (rule SELayer1D_forward_empty_bottleneck [OF assms(1,2) _ assms(6,5)]) simp
  then show ?thesis
    using assms(3,4) by (simp add: first_gate_def view_Inr permute_021_Inr)
qed

lemma second_gate_empty_bottleneck:
  assumes "SELayer1D_ok n g" "out_channels (fc1 g) = 0" "module_get ses i = Inr g"
    and "shape x = [b, k, t, n]" "0 < k" "0 < n"
  shows "second_gate ses i x = Inl RuntimeError"
proof -
  obtain x1 where x1: "permute_0213 \<lparr>shape = [b, k, t, n], data = data x\<rparr> = Inr x1"
      "shape x1 = [b, t, k, n]"
    by (simp add: permute_0213_Inr)
  obtain x2 where x2: "permute_021 \<lparr>shape = [b * t, k, n], data = data x1\<rparr> = Inr x2"
      "shape x2 = [b * t, n, k]"
    by (simp add: permute_021_Inr)
  have "SELayer1D_forward g x2 = Inl RuntimeError"
    by (rule SELayer1D_forward_empty_bottleneck [OF assms(1,2) x2(2) assms(6,5)])
  then show ?thesis
    using assms(3,4) x1 x2(1) by (simp add: second_gate_def view_Inr)
qed

section \<open>The stack\<close>





text \<open>
  When the common bottleneck of the gates is empty, the first layer raises in both
  runs, at the first gate in one and at the second gate in the other.
\<close>

lemma forward_empty_bottleneck:
  assumes "stack_ok n m" "\<not> gates_nonempty m" "shape x = [b, k, t, n]" "wf_tensor x"
    and "0 < b" "0 < k" "0 < t" "b * k * t \<noteq> 1"
  shows "forward_odd_gates m x = forward m x"
proof (cases "bsrnn m")
  case Nil
  then show ?thesis by (simp add: forward_def forward_odd_gates_def)
next
  case (Cons layer layers)
  have ok: "\<forall>m' \<in> set [fst layer, snd layer]. RNNModule_ok n m'"
    using assms(1) Cons by (simp add: stack_ok_def)
  then have n: "0 < n" by (simp add: RNNModule_ok_def)
  obtain x1 where x1: "sequential layer x = Inr x1" "shape x1 = [b, k, t, n]"
    using Sequential_forward_shape [OF ok assms(3-8)] by (auto simp: sequential_def)
  have len: "length (se_layers m) = 2 * length (bsrnn m)"
    and gok: "\<forall>g \<in> set (se_layers m). SELayer1D_ok n g"
    using assms(1) unfolding stack_ok_def by blast+
  obtain h where uni: "\<forall>g \<in> set (se_layers m). out_channels (fc1 g) = h"
    using assms(1) unfolding stack_ok_def by blast
  obtain g0 where g0: "g0 \<in> set (se_layers m)" "\<not> 0 < out_channels (fc1 g0)"
    using assms(2) unfolding gates_nonempty_def by blast
  then have "h = 0" using uni by auto
  then have empty: "out_channels (fc1 g) = 0" if "g \<in> set (se_layers m)" for g
    using uni that by blast
  have i: "0 < length (se_layers m)" "0 + 1 < length (se_layers m)"
    using len Cons by simp_all
  have "first_gate (se_layers m) 0 x1 = Inl RuntimeError"
    using i(1) gok empty
    by (intro first_gate_empty_bottleneck [OF _ _ module_get_Inr [OF i(1)] x1(2) assms(7) n])
       simp_all
  moreover have "second_gate (se_layers m) (0 + 1) x1 = Inl RuntimeError"
    using i(2) gok empty
    by (intro second_gate_empty_bottleneck [OF _ _ module_get_Inr [OF i(2)] x1(2) assms(6) n])
       simp_all
  ultimately show ?thesis
    using x1(1) Cons by (simp add: forward_def forward_odd_gates_def)
qed

text \<open>
  Claim C2. The value of the even-indexed gate is never used: whenever the forward
  pass returns a tensor, the same stack run without its even-indexed gates returns
  that tensor; and for a stack of width \<open>n\<close> on a valid input the two runs are equal.
\<close>

theorem forward_ignores_even_gates:
  "(forward m x = Inr y \<longrightarrow> forward_odd_gates m x = Inr y) \<and>
   (stack_ok n m \<and> shape x = [b, k, t, n] \<and> wf_tensor x \<and> 0 < b \<and> 0 < k \<and> 0 < t \<and> b * k * t \<noteq> 1
      \<longrightarrow> forward_odd_gates m x = forward m x)"
proof (intro conjI impI)
  assume "forward m x = Inr y"
  then show "forward_odd_gates m x = Inr y"
    unfolding forward_def forward_odd_gates_def by (rule forward_loop_odd_gates)
next
  assume a: "stack_ok n m \<and> shape x = [b, k, t, n] \<and> wf_tensor x \<and> 0 < b \<and> 0 < k \<and> 0 < t \<and> b * k * t \<noteq> 1"
  show "forward_odd_gates m x = forward m x"
  proof (cases "gates_nonempty m")
    case True
    have len: "0 + 2 * length (bsrnn m) \<le> length (se_layers m)"
      using a by (simp add: stack_ok_def)
    have gates: "\<forall>g \<in> set (se_layers m). 0 < out_channels (fc1 g)"
      using True by (simp add: gates_nonempty_def)
    from forward_loop_shape [OF _ len _ _ _ _ _ _ _ gates, of n x b k t] a
    obtain z where z: "forward m x = Inr z"
      by (auto simp: forward_def stack_ok_def)
    then have "forward_odd_gates m x = Inr z"
      unfolding forward_def forward_odd_gates_def by (rule forward_loop_odd_gates)
    with z show ?thesis by simp
  next
    case False
    with a show ?thesis by (intro forward_empty_bottleneck [of n m x b k t]) simp_all
  qed
qed

theorem forward_ignores_even_gates_witness:
  "(\<exists>y. forward ex_stack ex_input = Inr y \<and> forward_odd_gates ex_stack ex_input = Inr y) \<and>
   forward_odd_gates ex_stack ex_input = forward ex_stack ex_input"
proof -
  have len: "0 + 2 * length (bsrnn ex_stack) \<le> length (se_layers ex_stack)"
    by (simp add: ex_stack_def)
  have blocks: "\<forall>layer \<in> set (bsrnn ex_stack). RNNModule_ok 16 (fst layer) \<and> RNNModule_ok 16 (snd layer)"
    by (simp add: ex_stack_def ex_block_ok)
  have gok: "\<forall>g \<in> set (se_layers ex_stack). SELayer1D_ok 16 g"
    by (simp add: ex_stack_def ex_gate_ok)
  have gne: "\<forall>g \<in> set (se_layers ex_stack). 0 < out_channels (fc1 g)"
    by (simp add: ex_stack_def ex_gate_bottleneck)
  from forward_loop_shape [OF blocks len gok ex_input_valid _ _ _ _ gne]
  obtain y where y: "forward ex_stack ex_input = Inr y"
    by (auto simp: forward_def)
  have "forward_odd_gates ex_stack ex_input = Inr y"
    using forward_ignores_even_gates [of ex_stack ex_input y] y by blast
  moreover have "forward_odd_gates ex_stack ex_input = forward ex_stack ex_input"
    using forward_ignores_even_gates [of ex_stack ex_input y 16 1 2 1] ex_stack_ok ex_input_valid
    by simp
  ultimately show ?thesis using y by blast
qed

section \<open>The normalization of a block\<close>

lemma slice_map_upt:
  assumes "j * l + l \<le> N"
  shows "slice (map f [0..<N]) l j = map (\<lambda>p. f (j * l + p)) [0..<l]"
proof -
  have "slice (map f [0..<N]) l j = map f (take l [j * l..<N])"
    by (simp add: slice_def take_map drop_map)
  also have "take l [j * l..<N] = [j * l..<j * l + l]"
    using assms by (simp add: take_upt)
  also have "map f [j * l..<j * l + l] = map (\<lambda>p. f (j * l + p)) [0..<l]"
    by (rule nth_equalityI) simp_all
  finally show ?thesis .
qed

lemma group_norm_at3:
  assumes "group_norm_forward g x = Inr y" "num_groups g = n" "num_channels g = n" "0 < n"
    and "shape x = [r, n, l]" "r * l \<noteq> 1" "length (data x) = r * n * l"
    and "i < r" "q < n" "p < l"
  shows "at3 y i q p =
           (at3 x i q p - mean (map (\<lambda>p'. at3 x i q p') [0..<l]))
           / sqrt (variance (map (\<lambda>p'. at3 x i q p') [0..<l]) + gn_eps)
           * gn_weight g ! q + gn_bias g ! q"
proof -
  let ?P = "(i * n + q) * l + p"
  have lt: "?P < r * n * l" using assms(8-10) by (rule offset3_less)
  have j: "i * n + q < r * n" using assms(8,9) by (rule offset_less)
  have d: "?P div l = i * n + q" "(i * n + q) mod n = q" using assms(9,10) by simp_all
  have "(i * n + q) * l + l = Suc (i * n + q) * l" by simp
  also have "\<dots> \<le> (r * n) * l" using j by (intro mult_le_mono1) simp
  finally have le: "(i * n + q) * l + l \<le> r * n * l" .
  have "data x = map (\<lambda>p. data x ! p) [0..<r * n * l]"
    using assms(7) by (intro nth_equalityI) simp_all
  then have "slice (data x) l (i * n + q) = slice (map (\<lambda>p. data x ! p) [0..<r * n * l]) l (i * n + q)"
    by simp
  also have "\<dots> = map (\<lambda>p'. data x ! ((i * n + q) * l + p')) [0..<l]"
    using le by (rule slice_map_upt)
  also have "\<dots> = map (\<lambda>p'. at3 x i q p') [0..<l]"
    by (simp add: at3_eq [OF assms(5)])
  finally have sl: "slice (data x) l (i * n + q) = map (\<lambda>p'. at3 x i q p') [0..<l]" .
  have y: "y = \<lparr>shape = [r, n, l],
          data = map (\<lambda>p. (data x ! p - mean (slice (data x) l (p div l)))
                           / sqrt (variance (slice (data x) l (p div l)) + gn_eps)
                           * gn_weight g ! (p div l mod n) + gn_bias g ! (p div l mod n))
                     [0..<r * n * l]\<rparr>"
    using assms(1,10) group_norm_forward_Inr [OF assms(2-6)] by simp
  have "at3 y i q p = data y ! ?P" by (simp add: at3_def y)
  also have "\<dots> = (data x ! ?P - mean (slice (data x) l (?P div l)))
                           / sqrt (variance (slice (data x) l (?P div l)) + gn_eps)
                           * gn_weight g ! (?P div l mod n) + gn_bias g ! (?P div l mod n)"
    using lt by (simp add: y)
  finally show ?thesis
    by (simp only: d sl at3_eq [OF assms(5)])
qed

lemma upt_2: "[0..<2] = [0, Suc 0]"
  by (simp add: numeral_2_eq_2)

lemma ex_two_rows_permuted: "permute_021 ex_two_rows = Inr ex_two_rows"
  by (simp add: permute_021_def ex_two_rows_def upt_2)

lemma mean_single: "mean [v] = v"
  by (simp add: mean_def)

lemma variance_single: "variance [v] = 0"
  by (simp add: variance_def mean_def)

lemma ex_two_rows_normalized_gen:
  assumes "groupnorm m = \<lparr>num_groups = 1, num_channels = 1, gn_weight = [1], gn_bias = [0]\<rparr>"
  shows "RNNModule_normalize m ex_two_rows = Inr \<lparr>shape = [2, 1, 1], data = [0, 0]\<rparr>"
proof -
  have "group_norm_forward (groupnorm m) ex_two_rows = Inr \<lparr>shape = [2, 1, 1], data = [0, 0]\<rparr>"
    by (simp add: group_norm_forward_def assms ex_two_rows_def upt_2 slice_def
        mean_single variance_single)
  moreover have "permute_021 \<lparr>shape = [2, 1, 1], data = [0, 0]\<rparr> = Inr \<lparr>shape = [2, 1, 1], data = [0, 0]\<rparr>"
    by (simp add: permute_021_def upt_2)
  ultimately show ?thesis
    by (simp add: RNNModule_normalize_def ex_two_rows_permuted)
qed

lemma ex_two_rows_normalized:
  "RNNModule_normalize ex_block1 ex_two_rows = Inr \<lparr>shape = [2, 1, 1], data = [0, 0]\<rparr>"
  by (rule ex_two_rows_normalized_gen) (simp add: ex_block1_def)

lemma ex_two_rows_population: "channel_population ex_two_rows 0 = [1, 3]"
  by (simp add: channel_population_def row_channel_def at3_def ex_two_rows_def upt_2)

lemma ex_two_rows_spec: "data (spec_normalize ex_block1 ex_two_rows) ! 0 = - 1 / sqrt (1 + gn_eps)"
proof -
  have m: "mean [1, 3] = 2" by (simp add: mean_def)
  have v: "variance [1, 3] = 1" by (simp add: variance_def m) (simp add: mean_def)
  have "shape ex_two_rows ! 2 = 1" "numel (shape ex_two_rows) = 2" "data ex_two_rows ! 0 = 1"
    by (simp_all add: ex_two_rows_def)
  then show ?thesis
    by (simp add: spec_normalize_def upt_2 ex_two_rows_population m v ex_block1_def)
qed

text \<open>
  Claim C7 as stated fails: on two rows of one position each, the code normalizes
  every row by its own statistics and returns 0 everywhere, while the statistics of
  the joint population of the channel give a different tensor.
\<close>

theorem normalize_not_joint_counterexample:
  "RNNModule_normalize ex_block1 ex_two_rows = Inr \<lparr>shape = [2, 1, 1], data = [0, 0]\<rparr> \<and>
   RNNModule_normalize ex_block1 ex_two_rows \<noteq> Inr (spec_normalize ex_block1 ex_two_rows)"
proof -
  have "0 < sqrt (1 + gn_eps)" by (simp add: gn_eps_def)
  then have "data (spec_normalize ex_block1 ex_two_rows) ! 0 \<noteq> 0"
    by (simp add: ex_two_rows_spec)
  then have "spec_normalize ex_block1 ex_two_rows \<noteq> \<lparr>shape = [2, 1, 1], data = [0, 0]\<rparr>"
    by auto
  then show ?thesis by (simp add: ex_two_rows_normalized)
qed

text \<open>
  Claim C7, amended. The normalization of the folded tensor \<open>[r, t, n]\<close> is per row
  and per feature channel: the element at \<open>(i, p, q)\<close> is normalized by the mean and
  variance of channel \<open>q\<close> along the \<open>t\<close> positions of row \<open>i\<close> alone, then scaled and
  shifted by the weight and bias of channel \<open>q\<close>. (With no position at all, \<open>t = 0\<close>,
  the normalization raises.)
\<close>

theorem RNNModule_normalize_per_row:
  assumes "RNNModule_ok n m" "shape x = [r, t, n]" "r * t \<noteq> 1"
  shows "(0 < t \<longrightarrow>
           (\<exists>y. RNNModule_normalize m x = Inr y \<and> shape y = [r, t, n] \<and> wf_tensor y \<and>
              (\<forall>i < r. \<forall>p < t. \<forall>q < n.
                 at3 y i p q = (at3 x i p q - mean (row_channel x i q))
                               / sqrt (variance (row_channel x i q) + gn_eps)
                               * gn_weight (groupnorm m) ! q + gn_bias (groupnorm m) ! q))) \<and>
         (t = 0 \<and> 0 < r \<longrightarrow> RNNModule_normalize m x = Inl RuntimeError)"
proof (intro conjI impI)
  assume t: "0 < t"
  have g: "num_groups (groupnorm m) = n" "num_channels (groupnorm m) = n" "0 < n"
    using assms(1) by (simp_all add: RNNModule_ok_def)
  obtain o1 where o1: "permute_021 x = Inr o1" "shape o1 = [r, n, t]" "length (data o1) = r * n * t"
    using assms(2) by (simp add: permute_021_Inr)
  obtain o2 where o2: "group_norm_forward (groupnorm m) o1 = Inr o2" "shape o2 = [r, n, t]"
    using group_norm_forward_Inr [OF g o1(2) assms(3) t] by simp
  obtain y where y: "permute_021 o2 = Inr y" "shape y = [r, t, n]" "wf_tensor y"
    using o2(2) by (simp add: permute_021_Inr wf_tensor_def)
  have norm: "RNNModule_normalize m x = Inr y"
    by (simp add: RNNModule_normalize_def o1(1) o2(1) y(1))
  have el: "at3 y i p q = (at3 x i p q - mean (row_channel x i q))
                            / sqrt (variance (row_channel x i q) + gn_eps)
                            * gn_weight (groupnorm m) ! q + gn_bias (groupnorm m) ! q"
    if "i < r" "p < t" "q < n" for i p q
  proof -
    have a: "at3 o1 i q p' = at3 x i p' q" if "p' < t" for p'
      using permute_021_at [OF o1(1) assms(2) \<open>i < r\<close> \<open>q < n\<close> that] .
    have "map (\<lambda>p'. at3 o1 i q p') [0..<t] = map (\<lambda>p'. at3 x i p' q) [0..<t]"
      by (rule map_cong) (simp_all add: a)
    then have line: "map (\<lambda>p'. at3 o1 i q p') [0..<t] = row_channel x i q"
      using assms(2) by (simp add: row_channel_def)
    have "at3 y i p q = at3 o2 i q p"
      using permute_021_at [OF y(1) o2(2) that] .
    also have "\<dots> = (at3 o1 i q p - mean (map (\<lambda>p'. at3 o1 i q p') [0..<t]))
           / sqrt (variance (map (\<lambda>p'. at3 o1 i q p') [0..<t]) + gn_eps)
           * gn_weight (groupnorm m) ! q + gn_bias (groupnorm m) ! q"
      using group_norm_at3 [OF o2(1) g o1(2) assms(3) o1(3) that(1,3,2)] .
    finally show ?thesis by (simp only: line a [OF that(2)])
  qed
  from norm y(2,3) el
  show "\<exists>y. RNNModule_normalize m x = Inr y \<and> shape y = [r, t, n] \<and> wf_tensor y \<and>
              (\<forall>i < r. \<forall>p < t. \<forall>q < n.
                 at3 y i p q = (at3 x i p q - mean (row_channel x i q))
                               / sqrt (variance (row_channel x i q) + gn_eps)
                               * gn_weight (groupnorm m) ! q + gn_bias (groupnorm m) ! q)"
    by blast
next
  assume e: "t = 0 \<and> 0 < r"
  have g: "num_groups (groupnorm m) = n" "num_channels (groupnorm m) = n" "0 < n"
    using assms(1) by (simp_all add: RNNModule_ok_def)
  have "group_norm_forward (groupnorm m) \<lparr>shape = [r, n, 0], data = []\<rparr> = Inl RuntimeError"
    using g by (simp add: group_norm_forward_def)
  then show "RNNModule_normalize m x = Inl RuntimeError"
    using assms(2) e by (simp add: RNNModule_normalize_def permute_021_Inr)
qed

theorem RNNModule_normalize_per_row_witness:
  "\<exists>y. RNNModule_normalize ex_block1 ex_two_rows = Inr y \<and> shape y = [2, 1, 1] \<and>
        at3 y 1 0 0 = (3 - mean [3]) / sqrt (variance [3] + gn_eps) * 1 + 0"
proof -
  have ok: "RNNModule_ok 1 ex_block1"
    by (simp add: RNNModule_ok_def ex_block1_def linear_ok_zero_linear)
       (simp add: zero_linear_def rnn_ok_zero_rnn)
  have sh: "shape ex_two_rows = [2, 1, 1]" by (simp add: ex_two_rows_def)
  have rc: "row_channel ex_two_rows 1 0 = [3]" "at3 ex_two_rows 1 0 0 = 3"
    by (simp_all add: row_channel_def at3_def ex_two_rows_def)
  have w: "gn_weight (groupnorm ex_block1) ! 0 = 1" "gn_bias (groupnorm ex_block1) ! 0 = 0"
    by (simp_all add: ex_block1_def)
  have "(2::nat) * 1 \<noteq> 1" "(0::nat) < 1" by simp_all
  with RNNModule_normalize_per_row [OF ok sh] obtain y where
    y: "RNNModule_normalize ex_block1 ex_two_rows = Inr y" "shape y = [2, 1, 1]"
       "\<forall>i < 2. \<forall>p < 1. \<forall>q < 1.
              at3 y i p q = (at3 ex_two_rows i p q - mean (row_channel ex_two_rows i q))
                            / sqrt (variance (row_channel ex_two_rows i q) + gn_eps)
                            * gn_weight (groupnorm ex_block1) ! q + gn_bias (groupnorm ex_block1) ! q"
    by auto
  have "(1::nat) < 2" "(0::nat) < 1" by simp_all
  with y(3) have "at3 y 1 0 0 = (at3 ex_two_rows 1 0 0 - mean (row_channel ex_two_rows 1 0))
                            / sqrt (variance (row_channel ex_two_rows 1 0) + gn_eps)
                            * gn_weight (groupnorm ex_block1) ! 0 + gn_bias (groupnorm ex_block1) ! 0"
    by blast
  then have "at3 y 1 0 0 = (3 - mean [3]) / sqrt (variance [3] + gn_eps) * 1 + 0"
    by (simp only: rc w)
  with y(1,2) show ?thesis by blast
qed

section \<open>The residual path of a block\<close>

lemma dot_zero: "length xs \<le> h \<Longrightarrow> dot (replicate h 0) xs = 0"
  unfolding dot_def by (rule sum_list_zero) simp

lemma linear_forward_zero_linear:
  assumes "shape x = [r, t, h]"
  shows "linear_forward (zero_linear h n) x = Inr \<lparr>shape = [r, t, n], data = replicate (r * t * n) 0\<rparr>"
proof -
  have "dot (weight (zero_linear h n) ! (p mod n)) (slice (data x) h (p div n))
          + bias (zero_linear h n) ! (p mod n) = 0"
    if "p < r * t * n" for p
  proof -
    have "0 < n" using that by (cases n) simp_all
    then have "p mod n < n" by simp
    then show ?thesis by (simp add: zero_linear_def slice_def dot_zero)
  qed
  then have "map (\<lambda>p. dot (weight (zero_linear h n) ! (p mod n)) (slice (data x) h (p div n))
          + bias (zero_linear h n) ! (p mod n)) [0..<r * t * n] = replicate (r * t * n) 0"
    by (rule map_upt_const)
  then show ?thesis
    using assms by (simp add: linear_forward_def) (simp add: zero_linear_def)
qed

lemma tensor_add_zeros:
  assumes "wf_tensor x"
  shows "tensor_add \<lparr>shape = shape x, data = replicate (numel (shape x)) 0\<rparr> x = Inr x"
proof -
  have "map (\<lambda>p. replicate (numel (shape x)) 0 ! p + data x ! p) [0..<numel (shape x)] = data x"
    using assms by (intro nth_equalityI) (simp_all add: wf_tensor_def)
  then show ?thesis by (simp add: tensor_add_def)
qed


lemma RNNModule_normalize_upd [simp]:
  "RNNModule_normalize (m\<lparr>rnn := f, fc := l\<rparr>) x = RNNModule_normalize m x"
  by (simp add: RNNModule_normalize_def)

lemma RNNModule_branch_zero:
  assumes "RNNModule_ok n m" "shape x = [b, k, t, n]" "b * k * t \<noteq> 1" "0 < t"
  shows "RNNModule_branch (m\<lparr>rnn := zero_rnn h, fc := zero_linear h n\<rparr>) x
           = Inr \<lparr>shape = [b, k, t, n], data = replicate (b * k * t * n) 0\<rparr>"
proof -
  have v: "view x [b * k, t, n] = Inr \<lparr>shape = [b * k, t, n], data = data x\<rparr>"
    using assms(2) by (simp add: view_Inr)
  obtain o1 where o1: "RNNModule_normalize m \<lparr>shape = [b * k, t, n], data = data x\<rparr> = Inr o1"
      "shape o1 = [b * k, t, n]"
    using RNNModule_normalize_shape [OF assms(1), of "\<lparr>shape = [b * k, t, n], data = data x\<rparr>" "b * k" t]
      assms(3,4) by auto
  have o2: "zero_rnn h o1 = Inr \<lparr>shape = [b * k, t, h], data = replicate (b * k * t * h) 0\<rparr>"
    using o1(2) by (simp add: zero_rnn_def)
  have o3: "linear_forward (zero_linear h n) \<lparr>shape = [b * k, t, h], data = replicate (b * k * t * h) 0\<rparr>
              = Inr \<lparr>shape = [b * k, t, n], data = replicate (b * k * t * n) 0\<rparr>"
    by (rule linear_forward_zero_linear) simp
  have v2: "view \<lparr>shape = [b * k, t, n], data = replicate (b * k * t * n) 0\<rparr> [b, k, t, n]
              = Inr \<lparr>shape = [b, k, t, n], data = replicate (b * k * t * n) 0\<rparr>"
    by (simp add: view_Inr)
  show ?thesis
    using assms(2) by (simp add: RNNModule_branch_def v o1(1) o2 o3 v2)
qed

lemma RNNModule_residual_zero:
  assumes "RNNModule_ok n m" "shape x = [b, k, t, n]" "wf_tensor x" "b * k * t \<noteq> 1" "0 < t"
  shows "RNNModule_residual (m\<lparr>rnn := zero_rnn h, fc := zero_linear h n\<rparr>) x = Inr x"
proof -
  have "numel (shape x) = b * k * t * n" using assms(2) by (simp add: mult.assoc)
  then have "tensor_add \<lparr>shape = [b, k, t, n], data = replicate (b * k * t * n) 0\<rparr> x = Inr x"
    using tensor_add_zeros [OF assms(3)] assms(2) by (simp add: mult.assoc)
  then show ?thesis
    using RNNModule_branch_zero [OF assms(1,2,4,5), of h]
    by (simp only: RNNModule_residual_def ebind_Inr)
qed




section \<open>One block and chains of blocks\<close>










section \<open>The order of blocks and gates in one layer\<close>

lemma SELayer1D_forward_zero_full:
  assumes "SELayer1D_ok c m" "conv1d_zero (fc1 m)" "conv1d_zero (fc2 m)" "0 < c" "0 < l"
    and "0 < out_channels (fc1 m)"
  shows "SELayer1D_forward m (full [r, c, l] v) = Inr (full [r, c, l] (v * (1 / 2)))"
proof -
  have "shape (full [r, c, l] v) = [r, c, l]" by simp
  from SELayer1D_forward_half [OF assms(1-3) this wf_full assms(4,5,6)]
  show ?thesis by (simp add: full_def mult.assoc)
qed

lemma gate_last_axis_zero_full:
  assumes "SELayer1D_ok n g" "conv1d_zero (fc1 g)" "conv1d_zero (fc2 g)" "0 < n" "0 < q"
    and "0 < out_channels (fc1 g)"
  shows "gate_last_axis g (full [b, p, q, n] v) = Inr (full [b, p, q, n] (v * (1 / 2)))"
  by (simp add: gate_last_axis_def view_full permute_021_full mult.assoc
      SELayer1D_forward_zero_full [OF assms])

lemma second_gate_zero_full:
  assumes "SELayer1D_ok n g" "conv1d_zero (fc1 g)" "conv1d_zero (fc2 g)" "0 < n" "0 < k"
    and "0 < out_channels (fc1 g)" "module_get ses i = Inr g"
  shows "second_gate ses i (full [b, k, t, n] v) = Inr (full [b, k, t, n] (v * (1 / 2)))"
  by (simp add: second_gate_def view_full permute_021_full permute_0213_full mult.assoc
      SELayer1D_forward_zero_full [OF assms(1-6)] assms(7))

lemma RNNModule_forward_zero_full:
  assumes "RNNModule_ok n m" "b * k * t \<noteq> 1" "0 < t"
  shows "RNNModule_forward (m\<lparr>rnn := zero_rnn h, fc := zero_linear h n\<rparr>) (full [b, k, t, n] v)
           = Inr (full [b, t, k, n] v)"
proof -
  have "shape (full [b, k, t, n] v) = [b, k, t, n]" by simp
  from RNNModule_residual_zero [OF assms(1) this wf_full assms(2,3)]
  show ?thesis by (simp add: RNNModule_forward_def permute_0213_full)
qed

lemma ex_block_zero: "ex_block = ex_block\<lparr>rnn := zero_rnn 4, fc := zero_linear 4 16\<rparr>"
  by (simp add: ex_block_def)

lemma ex_block_forward:
  "b * k * t \<noteq> 1 \<Longrightarrow> 0 < t \<Longrightarrow> RNNModule_forward ex_block (full [b, k, t, 16] v) = Inr (full [b, t, k, 16] v)"
  using RNNModule_forward_zero_full [OF ex_block_ok, of b k t 4 v] ex_block_zero by simp

lemma ex_gates: "module_get (se_layers ex_stack) 0 = Inr ex_gate"
  "module_get (se_layers ex_stack) (0 + 1) = Inr ex_gate"
  by (simp_all add: module_get_def ex_stack_def)

lemma ex_forward: "forward ex_stack ex_input = Inr (full [1, 2, 1, 16] (1 / 2))"
proof -
  have s: "sequential (ex_block, ex_block) (full [1, 2, 1, 16] 1) = Inr (full [1, 2, 1, 16] 1)"
    by (simp add: sequential_def ex_block_forward)
  have g0: "first_gate (se_layers ex_stack) 0 (full [1, 2, 1, 16] 1) = Inr (full [1, 2, 1, 16] (1 / 2))"
    using gate_last_axis_zero_full [OF ex_gate_ok ex_gate_zero _ _ ex_gate_bottleneck, of 1 1 2 1]
      first_gate_eq [OF ex_gates(1), of "full [1, 2, 1, 16] 1" 1 2 1 16] by simp
  have g1: "second_gate (se_layers ex_stack) (0 + 1) (full [1, 2, 1, 16] 1)
              = Inr (full [1, 2, 1, 16] (1 / 2))"
    using second_gate_zero_full [OF ex_gate_ok ex_gate_zero _ _ ex_gate_bottleneck ex_gates(2),
        of 2 1 1 1] by simp
  have "forward_loop (se_layers ex_stack) 0 [(ex_block, ex_block)] (full [1, 2, 1, 16] 1)
          = Inr (full [1, 2, 1, 16] (1 / 2))"
    by (simp only: forward_loop.simps s ebind_Inr g0 g1)
  then show ?thesis by (simp add: forward_def ex_input_def) (simp add: ex_stack_def)
qed

lemma ex_spec_forward: "spec_forward ex_stack ex_input = Inr (full [1, 2, 1, 16] (1 / 4))"
proof -
  have b0: "RNNModule_forward ex_block (full [1, 2, 1, 16] 1) = Inr (full [1, 1, 2, 16] 1)"
    by (simp add: ex_block_forward)
  have g0: "gate_last_axis ex_gate (full [1, 1, 2, 16] 1) = Inr (full [1, 1, 2, 16] (1 / 2))"
    using gate_last_axis_zero_full [OF ex_gate_ok ex_gate_zero _ _ ex_gate_bottleneck, of 2 1 1 1]
    by simp
  have b1: "RNNModule_forward ex_block (full [1, 1, 2, 16] (1 / 2)) = Inr (full [1, 2, 1, 16] (1 / 2))"
    by (simp add: ex_block_forward)
  have g1: "gate_last_axis ex_gate (full [1, 2, 1, 16] (1 / 2)) = Inr (full [1, 2, 1, 16] (1 / 4))"
    using gate_last_axis_zero_full [OF ex_gate_ok ex_gate_zero _ _ ex_gate_bottleneck,
        of 1 1 2 "1 / 2"] by simp
  have "spec_loop (se_layers ex_stack) 0 [(ex_block, ex_block)] (full [1, 2, 1, 16] 1)
          = Inr (full [1, 2, 1, 16] (1 / 4))"
    by (simp only: spec_loop.simps fst_conv snd_conv b0 ebind_Inr ex_gates g0 b1 g1)
  then show ?thesis by (simp add: spec_forward_def ex_input_def) (simp add: ex_stack_def)
qed

text \<open>
  Claim C1, evaluated on the example stack: the code returns the input times \<open>1 / 2\<close>,
  one gate having acted, where the order the claim describes applies two gates and
  gives the input times \<open>1 / 4\<close>.
\<close>

theorem forward_applies_one_gate:
  "forward ex_stack ex_input = Inr (full [1, 2, 1, 16] (1 / 2)) \<and>
   spec_forward ex_stack ex_input = Inr (full [1, 2, 1, 16] (1 / 4)) \<and>
   forward ex_stack ex_input \<noteq> spec_forward ex_stack ex_input"
proof -
  have "full [1, 2, 1, 16] (1 / 2) \<noteq> full [1, 2, 1, 16] (1 / 4)"
    by (simp add: full_def)
  then show ?thesis by (simp add: ex_forward ex_spec_forward)
qed

section \<open>Construction\<close>

lemma SELayer1D_init_Inr:
  assumes "0 \<le> c" "0 < r"
  shows "SELayer1D_init c r =
           Inr \<lparr>fc1_sizes = \<lparr>cin = c, cout = c div r\<rparr>, fc2_sizes = \<lparr>cin = c div r, cout = c\<rparr>\<rparr>"
proof -
  have "0 \<le> c div r" using assms by (simp add: pos_imp_zdiv_nonneg_iff)
  then show ?thesis
    using assms by (simp add: SELayer1D_init_def floordiv_def Conv1d_init_def)
qed

lemma nn_getattr_known:
  "rnn_type \<in> {''RNN'', ''LSTM'', ''GRU''} \<Longrightarrow> \<exists>cls. nn_getattr rnn_type = Inr (RecurrentClass cls)"
  by (auto simp: nn_getattr_def)

lemma RNNModule_init_Inr:
  assumes "0 < n" "0 < h" "rnn_type \<in> {''RNN'', ''LSTM'', ''GRU''}"
  shows "\<not> isl (RNNModule_init n h rnn_type bd)"
proof -
  obtain cls where "nn_getattr rnn_type = Inr (RecurrentClass cls)"
    using nn_getattr_known [OF assms(3)] by blast
  then show ?thesis
    using assms(1,2)
    by (simp add: RNNModule_init_def GroupNorm_init_def nn_call_def rnn_init_def Linear_init_def)
qed

text \<open>Names of torch.nn that are not recurrent classes: \<open>Identity\<close> is constructed,
  \<open>Linear\<close> rejects the arguments.\<close>

lemma RNNModule_init_other_names:
  "\<not> isl (RNNModule_init 16 32 ''Identity'' True) \<and>
   RNNModule_init 16 32 ''Linear'' True = Inl TypeError"
  by (simp add: RNNModule_init_def GroupNorm_init_def nn_getattr_def nn_call_def Linear_init_def
      other_nn_names_def)

lemma ebind_not_isl: "\<not> isl m \<Longrightarrow> (\<And>a. \<not> isl (f a)) \<Longrightarrow> \<not> isl (ebind m f)"
  by (cases m) simp_all

lemma build_bsrnn_Inr:
  assumes "0 < n" "0 < h" "rnn_type \<in> {''RNN'', ''LSTM'', ''GRU''}"
  shows "\<not> isl (build_bsrnn c n h rnn_type bd)"
proof (induction c)
  case 0
  show ?case by simp
next
  case (Suc c)
  show ?case
    by (simp only: build_bsrnn.simps)
       (intro ebind_not_isl RNNModule_init_Inr [OF assms] Suc.IH, simp)
qed

lemma build_se_layers_Inr: "0 \<le> n \<Longrightarrow> \<not> isl (build_se_layers c n)"
proof (induction c)
  case 0
  show ?case by simp
next
  case (Suc c)
  have "\<not> isl (SELayer1D_init n default_reduction)"
    using Suc.prems by (simp add: SELayer1D_init_Inr default_reduction_def)
  then show ?case
    by (simp only: build_se_layers.simps)
       (intro ebind_not_isl Suc.IH Suc.prems, simp_all)
qed

lemma BandSequenceModelModule_init_Inr:
  assumes "0 < n" "0 < h" "rnn_type \<in> {''RNN'', ''LSTM'', ''GRU''}"
  shows "\<not> isl (BandSequenceModelModule_init n h rnn_type bd layers)"
  unfolding BandSequenceModelModule_init_def
  using assms(1) by (intro ebind_not_isl build_bsrnn_Inr [OF assms] build_se_layers_Inr) simp_all

lemma build_bsrnn_unknown:
  assumes "0 < n" "nn_getattr rnn_type = Inl AttributeError"
  shows "build_bsrnn (Suc c) n h rnn_type bd = Inl AttributeError"
  using assms by (simp add: RNNModule_init_def GroupNorm_init_def)

text \<open>
  Claim C3 as stated fails: a gate for 24 channels with reduction 16 is constructed,
  with bottleneck width 1, and so is a stack of feature width 24.
\<close>

theorem init_not_divisible_counterexample:
  "(24::int) mod 16 \<noteq> 0 \<and>
   SELayer1D_init 24 16 = Inr \<lparr>fc1_sizes = \<lparr>cin = 24, cout = 1\<rparr>, fc2_sizes = \<lparr>cin = 1, cout = 24\<rparr>\<rparr> \<and>
   \<not> isl (BandSequenceModelModule_init 24 32 ''LSTM'' True 12)"
  using SELayer1D_init_Inr [of 24 16] BandSequenceModelModule_init_Inr [of 24 32 "''LSTM''" True 12]
  by simp

text \<open>
  Claim C3, amended. Construction does not look at divisibility. A gate over \<open>c\<close>
  channels with a reduction factor \<open>r\<close> between 1 and \<open>c\<close> is constructed with the
  bottleneck width \<open>c div r\<close> (floor division), whether or not \<open>r\<close> divides \<open>c\<close>; a
  stack with a feature width of at least the default reduction factor, a positive
  hidden width and one of the recurrent class names of torch.nn is constructed
  whether or not the reduction factor divides the feature width.
\<close>

theorem init_succeeds_without_divisibility:
  "(0 < r \<and> r \<le> c \<longrightarrow>
      SELayer1D_init c r =
        Inr \<lparr>fc1_sizes = \<lparr>cin = c, cout = c div r\<rparr>, fc2_sizes = \<lparr>cin = c div r, cout = c\<rparr>\<rparr>) \<and>
   (default_reduction \<le> n \<and> 0 < h \<and> rnn_type \<in> {''RNN'', ''LSTM'', ''GRU''} \<longrightarrow>
      \<not> isl (BandSequenceModelModule_init n h rnn_type bd layers))"
proof -
  have "0 < n" if "default_reduction \<le> n"
    using that by (simp add: default_reduction_def)
  then show ?thesis
    using SELayer1D_init_Inr [of c r] BandSequenceModelModule_init_Inr [of n h rnn_type bd layers]
    by auto
qed

theorem init_succeeds_without_divisibility_witness:
  "SELayer1D_init 32 16 = Inr \<lparr>fc1_sizes = \<lparr>cin = 32, cout = 2\<rparr>, fc2_sizes = \<lparr>cin = 2, cout = 32\<rparr>\<rparr> \<and>
   SELayer1D_init 40 16 = Inr \<lparr>fc1_sizes = \<lparr>cin = 40, cout = 2\<rparr>, fc2_sizes = \<lparr>cin = 2, cout = 40\<rparr>\<rparr> \<and>
   \<not> isl (BandSequenceModelModule_init 40 64 ''GRU'' False 3)"
  using init_succeeds_without_divisibility [of 16 32 40 64 "''GRU''" False 3]
    init_succeeds_without_divisibility [of 16 40 40 64 "''GRU''" False 3]
  by (simp add: default_reduction_def)

text \<open>
  Claim C4, evaluated at the default configuration with the sizes of the module's own
  example (feature width 128, hidden width 256): the default recurrence name
  \<open>lstm\<close> is not a name of torch.nn, so construction raises AttributeError; with
  the name \<open>LSTM\<close>, which the example passes, the same sizes are constructed.
\<close>

theorem default_init_raises:
  "BandSequenceModelModule_init 128 256 default_rnn_type default_bidirectional default_num_layers
     = Inl AttributeError \<and>
   \<not> isl (BandSequenceModelModule_init 128 256 ''LSTM'' default_bidirectional default_num_layers)"
proof -
  have "nn_getattr default_rnn_type = Inl AttributeError"
    by (simp add: nn_getattr_def default_rnn_type_def other_nn_names_def)
  then have "build_bsrnn (Suc 11) 128 256 default_rnn_type default_bidirectional = Inl AttributeError"
    by (intro build_bsrnn_unknown) simp_all
  moreover have "nat default_num_layers = Suc 11" by (simp add: default_num_layers_def)
  ultimately have "BandSequenceModelModule_init 128 256 default_rnn_type default_bidirectional
      default_num_layers = Inl AttributeError"
    by (simp add: BandSequenceModelModule_init_def)
  then show ?thesis
    using BandSequenceModelModule_init_Inr [of 128 256 "''LSTM''"] by simp
qed

end
